theory Spec2Isabelle
  imports Main "HOL-Library.Word" "HOL-Library.List_Lexorder"
begin

unbundle bit_operations_syntax

section \<open>Bytes, strings and formatting\<close>

text \<open>
  A Go \<^verbatim>\<open>[]byte\<close> is a list of 8-bit words; a Go \<^verbatim>\<open>string\<close> is a list of
  characters (one \<open>char\<close> per byte). \<^verbatim>\<open>int64\<close> is a 64-bit word read with \<open>sint\<close>.
\<close>

type_synonym byte = "8 word"

definition string_bytes :: "string \<Rightarrow> byte list" where
  "string_bytes s = map of_char s"

text \<open>
  \<^verbatim>\<open>bytes.Compare(a, b)\<close> of the Go library: \<open>-1\<close>, \<open>0\<close> or \<open>1\<close> by the
  lexicographic order of the two slices, bytes read unsigned.
\<close>

fun bytes_Compare :: "byte list \<Rightarrow> byte list \<Rightarrow> int" where
  "bytes_Compare [] [] = 0"
| "bytes_Compare [] (y # ys) = - 1"
| "bytes_Compare (x # xs) [] = 1"
| "bytes_Compare (x # xs) (y # ys) =
     (if unat x < unat y then - 1
      else if unat y < unat x then 1
      else bytes_Compare xs ys)"

text \<open>Digits of a magnitude, most significant first, as the formatting loop of
  \<^verbatim>\<open>fmt\<close> writes them.\<close>

definition digit_char :: "nat \<Rightarrow> char" where
  "digit_char d = ''0123456789abcdef'' ! d"

function decimal :: "int \<Rightarrow> string" where
  "decimal n =
     (if n < 10 then [digit_char (nat n)]
      else decimal (n div 10) @ [digit_char (nat (n mod 10))])"
  by pat_completeness auto
termination
  by (relation "measure nat") auto

function hexadecimal :: "int \<Rightarrow> string" where
  "hexadecimal n =
     (if n < 16 then [digit_char (nat n)]
      else hexadecimal (n div 16) @ [digit_char (nat (n mod 16))])"
  by pat_completeness auto
termination
  by (relation "measure nat") auto

declare decimal.simps [simp del] hexadecimal.simps [simp del]

text \<open>\<^verbatim>\<open>fmt.Sprintf("%d", x)\<close> for an \<^verbatim>\<open>int64\<close>.\<close>

definition Sprintf_d :: "64 word \<Rightarrow> string" where
  "Sprintf_d x =
     (if sint x < 0 then CHR ''-'' # decimal (- sint x) else decimal (sint x))"

text \<open>\<^verbatim>\<open>fmt.Sprintf("%x", h)\<close> for a byte array: two lowercase hex digits per byte.\<close>

definition hex_byte :: "byte \<Rightarrow> string" where
  "hex_byte b = [digit_char (unat b div 16), digit_char (unat b mod 16)]"

definition Sprintf_x_bytes :: "byte list \<Rightarrow> string" where
  "Sprintf_x_bytes h = concat (map hex_byte h)"

text \<open>\<^verbatim>\<open>strings.ToUpper\<close> on ASCII text.\<close>

definition upper_char :: "char \<Rightarrow> char" where
  "upper_char c =
     (let n = (of_char c :: nat) in if 97 \<le> n \<and> n \<le> 122 then char_of (n - 32) else c)"

definition ToUpper :: "string \<Rightarrow> string" where
  "ToUpper s = map upper_char s"


section \<open>SHA-256\<close>

text \<open>
  \<^verbatim>\<open>sha256.Sum256\<close> belongs to the Go standard library. It is written out here after
  FIPS 180-4, so that the verification key can be computed on concrete inputs. The
  result is the 32-byte digest. The round constants are the first 32 bits of the
  fractional parts of the cube roots of the first 64 primes.
\<close>

type_synonym w32 = "32 word"

definition K256 :: "w32 list" where
  "K256 =
    [
     1116352408, 1899447441, 3049323471, 3921009573,
     961987163, 1508970993, 2453635748, 2870763221,
     3624381080, 310598401, 607225278, 1426881987,
     1925078388, 2162078206, 2614888103, 3248222580,
     3835390401, 4022224774, 264347078, 604807628,
     770255983, 1249150122, 1555081692, 1996064986,
     2554220882, 2821834349, 2952996808, 3210313671,
     3336571891, 3584528711, 113926993, 338241895,
     666307205, 773529912, 1294757372, 1396182291,
     1695183700, 1986661051, 2177026350, 2456956037,
     2730485921, 2820302411, 3259730800, 3345764771,
     3516065817, 3600352804, 4094571909, 275423344,
     430227734, 506948616, 659060556, 883997877,
     958139571, 1322822218, 1537002063, 1747873779,
     1955562222, 2024104815, 2227730452, 2361852424,
     2428436474, 2756734187, 3204031479, 3329325298
    ]"

definition bsig0 :: "w32 \<Rightarrow> w32" where
  "bsig0 x = word_rotr 2 x XOR word_rotr 13 x XOR word_rotr 22 x"

definition bsig1 :: "w32 \<Rightarrow> w32" where
  "bsig1 x = word_rotr 6 x XOR word_rotr 11 x XOR word_rotr 25 x"

definition ssig0 :: "w32 \<Rightarrow> w32" where
  "ssig0 x = word_rotr 7 x XOR word_rotr 18 x XOR drop_bit 3 x"

definition ssig1 :: "w32 \<Rightarrow> w32" where
  "ssig1 x = word_rotr 17 x XOR word_rotr 19 x XOR drop_bit 10 x"

definition ch :: "w32 \<Rightarrow> w32 \<Rightarrow> w32 \<Rightarrow> w32" where
  "ch x y z = (x AND y) XOR (NOT x AND z)"

definition maj :: "w32 \<Rightarrow> w32 \<Rightarrow> w32 \<Rightarrow> w32" where
  "maj x y z = (x AND y) XOR (x AND z) XOR (y AND z)"

record sha_state =
  ha :: w32
  hb :: w32
  hc :: w32
  hd' :: w32
  he :: w32
  hf :: w32
  hg :: w32
  hh :: w32

definition sha_init :: sha_state where
  "sha_init = \<lparr>ha = 0x6a09e667, hb = 0xbb67ae85, hc = 0x3c6ef372, hd' = 0xa54ff53a,
               he = 0x510e527f, hf = 0x9b05688c, hg = 0x1f83d9ab, hh = 0x5be0cd19\<rparr>"

definition be_word :: "byte list \<Rightarrow> w32" where
  "be_word bs = foldl (\<lambda>acc b. push_bit 8 acc OR ucast b) 0 bs"

definition word_be_bytes :: "w32 \<Rightarrow> byte list" where
  "word_be_bytes w = [ucast (drop_bit 24 w), ucast (drop_bit 16 w), ucast (drop_bit 8 w), ucast w]"

fun chunks :: "nat \<Rightarrow> nat \<Rightarrow> 'a list \<Rightarrow> 'a list list" where
  "chunks 0 n xs = []"
| "chunks (Suc k) n xs = take n xs # chunks k n (drop n xs)"

definition schedule_step :: "w32 list \<Rightarrow> w32 list" where
  "schedule_step w =
     (let i = length w
      in w @ [ssig1 (w ! (i - 2)) + w ! (i - 7) + ssig0 (w ! (i - 15)) + w ! (i - 16)])"

definition schedule :: "byte list \<Rightarrow> w32 list" where
  "schedule block = (schedule_step ^^ 48) (map be_word (chunks 16 4 block))"

definition sha_round :: "sha_state \<Rightarrow> w32 \<times> w32 \<Rightarrow> sha_state" where
  "sha_round s kw =
     (let t1 = hh s + bsig1 (he s) + ch (he s) (hf s) (hg s) + fst kw + snd kw;
          t2 = bsig0 (ha s) + maj (ha s) (hb s) (hc s)
      in \<lparr>ha = t1 + t2, hb = ha s, hc = hb s, hd' = hc s,
          he = hd' s + t1, hf = he s, hg = hf s, hh = hg s\<rparr>)"

definition sha_block :: "sha_state \<Rightarrow> byte list \<Rightarrow> sha_state" where
  "sha_block s block =
     (let r = foldl sha_round s (zip K256 (schedule block))
      in \<lparr>ha = ha s + ha r, hb = hb s + hb r, hc = hc s + hc r, hd' = hd' s + hd' r,
          he = he s + he r, hf = hf s + hf r, hg = hg s + hg r, hh = hh s + hh r\<rparr>)"

definition sha_pad :: "byte list \<Rightarrow> byte list" where
  "sha_pad m =
     (let n = length m;
          z = (119 - n mod 64) mod 64;
          bits = (word_of_nat (8 * n) :: 64 word)
      in m @ [0x80] @ replicate z 0 @
         map (\<lambda>i. ucast (drop_bit (8 * (7 - i)) bits)) [0, 1, 2, 3, 4, 5, 6, 7])"

definition Sum256 :: "byte list \<Rightarrow> byte list" where
  "Sum256 m =
     (let p = sha_pad m;
          s = foldl sha_block sha_init (chunks (length p div 64) 64 p)
      in concat (map word_be_bytes [ha s, hb s, hc s, hd' s, he s, hf s, hg s, hh s]))"

section \<open>Verification key (internal/protocol/crypto.go)\<close>

text \<open>
  Of an \<^verbatim>\<open>*x509.Certificate\<close> the function reads only the DER bytes of the
  SubjectPublicKeyInfo.
\<close>

record Certificate =
  RawSubjectPublicKeyInfo :: "byte list"

text \<open>
  \<^verbatim>\<open>GetVerificationKey(certA, certB, timestamp)\<close>. The Go function returns the
  pair of the key and an error that is always \<^verbatim>\<open>nil\<close>; the model returns the key.
  \<open>combined\<close> starts as the empty slice, so each \<^verbatim>\<open>append\<close> is a concatenation.
\<close>

definition GetVerificationKey :: "Certificate \<Rightarrow> Certificate \<Rightarrow> 64 word \<Rightarrow> string" where
  "GetVerificationKey certA certB timestamp =
     (let pubA = RawSubjectPublicKeyInfo certA;
          pubB = RawSubjectPublicKeyInfo certB;
          combined = (if bytes_Compare pubA pubB < 0 then ([] @ pubB) @ pubA
                      else ([] @ pubA) @ pubB);
          tsStr = Sprintf_d timestamp;
          combined = combined @ string_bytes tsStr;
          hash = Sum256 combined;
          hexStr = Sprintf_x_bytes hash;
          hexStr = (if length hexStr > 8 then take 8 hexStr else hexStr)
      in ToUpper hexStr)"

text \<open>
  The derivation in the words of the specification: the two blobs compared in the
  lexicographic order of unsigned bytes, the larger first, then the decimal timestamp,
  SHA-256, lowercase hex, the first 8 characters, uppercased.
\<close>

definition vk_spec :: "byte list \<Rightarrow> byte list \<Rightarrow> 64 word \<Rightarrow> string" where
  "vk_spec A B t =
     (let combined = (if A < B then B @ A else A @ B);
          h = Sum256 (combined @ string_bytes (Sprintf_d t))
      in ToUpper (take 8 (Sprintf_x_bytes h)))"


text \<open>
  \<^verbatim>\<open>fmt.Sprintf("%030x", x)\<close> for an \<^verbatim>\<open>int64\<close>: the magnitude in lowercase hex,
  zero-padded to the width, one place of which is left for the sign of a negative
  number; the final padding with spaces to the width never adds anything.
\<close>

definition Sprintf_030x :: "64 word \<Rightarrow> string" where
  "Sprintf_030x x =
     (let negative = sint x < 0;
          u = (if negative then - sint x else sint x);
          prec = (if negative then 30 - 1 else 30);
          ds = hexadecimal u;
          ds = replicate (prec - length ds) CHR ''0'' @ ds;
          buf = (if negative then CHR ''-'' # ds else ds)
      in replicate (30 - length buf) CHR '' '' @ buf)"

section \<open>JSON values and \<^verbatim>\<open>encoding/json\<close>\<close>

text \<open>
  The packet codec of the program is \<^verbatim>\<open>json.Unmarshal\<close> and
  \<^verbatim>\<open>json.Decoder.Decode\<close> of the Go library, applied to the struct types of
  \<^verbatim>\<open>internal/protocol/packets.go\<close>. The model starts from a well-formed JSON
  value. A number is an integer literal (\<open>JInt\<close>) or a literal with a fraction or an
  exponent (\<open>JFrac\<close>, which keeps the text); the members of an object are kept in
  their order, duplicates included.
\<close>

datatype json =
    JNull
  | JBool bool
  | JInt int
  | JFrac string
  | JString string
  | JArray "json list"
  | JObject "(string \<times> json) list"

datatype json_error = SyntaxError | UnmarshalTypeError

text \<open>
  A member is stored in the struct field whose JSON name equals its key, case
  folded. Every field name of the program is ASCII, and the only non-ASCII runes that
  fold to an ASCII letter are U+017F (UTF-8 \<open>C5 BF\<close>, folds to \<open>S\<close>) and U+212A
  (UTF-8 \<open>E2 84 AA\<close>, folds to \<open>K\<close>).
\<close>

fun foldName :: "string \<Rightarrow> string" where
  "foldName (a # b # c # cs) =
     (if [a, b, c] = [CHR 0xE2, CHR 0x84, CHR 0xAA] then CHR ''K'' # foldName cs
      else if [a, b] = [CHR 0xC5, CHR 0xBF] then CHR ''S'' # foldName (c # cs)
      else upper_char a # foldName (b # c # cs))"
| "foldName [a, b] =
     (if [a, b] = [CHR 0xC5, CHR 0xBF] then [CHR ''S''] else [upper_char a, upper_char b])"
| "foldName [a] = [upper_char a]"
| "foldName [] = []"

text \<open>
  Storing a JSON value in a field. \<^verbatim>\<open>null\<close> leaves a string, a number or a
  boolean as it was; a value of the wrong kind, or a number that is not an integer of
  the field's range, is an \<^verbatim>\<open>UnmarshalTypeError\<close>. The library goes on decoding after
  such an error and returns the first one at the end; the callers drop the struct
  whenever an error is returned, so the model stops at the first one.
\<close>

definition store_string :: "json \<Rightarrow> string \<Rightarrow> json_error + string" where
  "store_string v cur =
     (case v of JNull \<Rightarrow> Inr cur | JString s \<Rightarrow> Inr s | _ \<Rightarrow> Inl UnmarshalTypeError)"

definition store_bool :: "json \<Rightarrow> bool \<Rightarrow> json_error + bool" where
  "store_bool v cur =
     (case v of JNull \<Rightarrow> Inr cur | JBool b \<Rightarrow> Inr b | _ \<Rightarrow> Inl UnmarshalTypeError)"

definition in_int64 :: "int \<Rightarrow> bool" where
  "in_int64 n \<longleftrightarrow> - (2 ^ 63) \<le> n \<and> n < 2 ^ 63"

definition store_int64 :: "json \<Rightarrow> 64 word \<Rightarrow> json_error + 64 word" where
  "store_int64 v cur =
     (case v of
        JNull \<Rightarrow> Inr cur
      | JInt n \<Rightarrow> if in_int64 n then Inr (word_of_int n) else Inl UnmarshalTypeError
      | _ \<Rightarrow> Inl UnmarshalTypeError)"

text \<open>A Go \<^verbatim>\<open>int\<close> field (64 bits wide); the value is kept as an integer in that range.\<close>

definition store_int :: "json \<Rightarrow> int \<Rightarrow> json_error + int" where
  "store_int v cur =
     (case v of
        JNull \<Rightarrow> Inr cur
      | JInt n \<Rightarrow> if in_int64 n then Inr n else Inl UnmarshalTypeError
      | _ \<Rightarrow> Inl UnmarshalTypeError)"

text \<open>
  A \<^verbatim>\<open>[]string\<close> field: \<^verbatim>\<open>null\<close> sets the nil slice, an array is decoded
  element by element into the elements already there (new elements start empty).
\<close>

fun store_elems :: "json list \<Rightarrow> string list \<Rightarrow> json_error + string list" where
  "store_elems [] cur = Inr []"
| "store_elems (v # vs) cur =
     (case store_string v (case cur of [] \<Rightarrow> [] | c # _ \<Rightarrow> c) of
        Inl err \<Rightarrow> Inl err
      | Inr s \<Rightarrow>
          (case store_elems vs (case cur of [] \<Rightarrow> [] | _ # cs \<Rightarrow> cs) of
             Inl err \<Rightarrow> Inl err
           | Inr ss \<Rightarrow> Inr (s # ss)))"

definition store_strings :: "json \<Rightarrow> string list \<Rightarrow> json_error + string list" where
  "store_strings v cur =
     (case v of
        JNull \<Rightarrow> Inr []
      | JArray vs \<Rightarrow> store_elems vs cur
      | _ \<Rightarrow> Inl UnmarshalTypeError)"

text \<open>The members of an object, stored one after the other.\<close>

fun store_members ::
  "('s \<Rightarrow> string \<times> json \<Rightarrow> json_error + 's) \<Rightarrow> 's \<Rightarrow> (string \<times> json) list \<Rightarrow> json_error + 's"
where
  "store_members f s [] = Inr s"
| "store_members f s (kv # kvs) =
     (case f s kv of Inl err \<Rightarrow> Inl err | Inr s' \<Rightarrow> store_members f s' kvs)"

text \<open>
  Unmarshalling into a struct: \<^verbatim>\<open>null\<close> leaves the struct as it is, an object stores
  its members, anything else is an \<^verbatim>\<open>UnmarshalTypeError\<close>.
\<close>

definition unmarshal_struct ::
  "('s \<Rightarrow> string \<times> json \<Rightarrow> json_error + 's) \<Rightarrow> json \<Rightarrow> 's \<Rightarrow> json_error + 's"
where
  "unmarshal_struct f v s =
     (case v of
        JNull \<Rightarrow> Inr s
      | JObject kvs \<Rightarrow> store_members f s kvs
      | _ \<Rightarrow> Inl UnmarshalTypeError)"

section \<open>Packets (internal/protocol/packets.go)\<close>

text \<open>
  \<open>Body\<close> is a \<^verbatim>\<open>json.RawMessage\<close>: the raw JSON of the member, whatever its
  kind (\<^verbatim>\<open>null\<close> included); \<open>None\<close> is the nil message of a packet without a body.
\<close>

record Packet =
  Id' :: "64 word"
  Type :: string
  Body :: "json option"

definition Packet_zero :: Packet where
  "Packet_zero = \<lparr>Id' = 0, Type = [], Body = None\<rparr>"

definition Packet_member :: "Packet \<Rightarrow> string \<times> json \<Rightarrow> json_error + Packet" where
  "Packet_member p kv =
     (let k = foldName (fst kv); v = snd kv
      in if k = foldName ''id'' then
           (case store_int64 v (Id' p) of Inl err \<Rightarrow> Inl err | Inr n \<Rightarrow> Inr (p\<lparr>Id' := n\<rparr>))
         else if k = foldName ''type'' then
           (case store_string v (Type p) of Inl err \<Rightarrow> Inl err | Inr t \<Rightarrow> Inr (p\<lparr>Type := t\<rparr>))
         else if k = foldName ''body'' then Inr (p\<lparr>Body := Some v\<rparr>)
         else Inr p)"

text \<open>
  \<^verbatim>\<open>var p protocol.Packet; json.Unmarshal(data, &p)\<close>, and one
  \<^verbatim>\<open>decoder.Decode(&p)\<close>, on a well-formed JSON value.
\<close>

definition Unmarshal_Packet :: "json \<Rightarrow> json_error + Packet" where
  "Unmarshal_Packet v = unmarshal_struct Packet_member v Packet_zero"

section \<open>Protocol bodies (internal/protocol/packets.go)\<close>

record IdentityBody =
  DeviceId :: string
  DeviceName :: string
  DeviceType :: string
  ProtocolVersion :: int
  TcpPort :: int
  BluetoothAddress :: string
  IncomingCapabilities :: "string list"
  OutgoingCapabilities :: "string list"

record PairBody =
  Pair' :: bool
  Timestamp :: "64 word"

record SftpBody =
  StartBrowsing :: bool
  Ip :: string
  Port :: int
  User :: string
  Password :: string
  Path :: string
  MultiPaths :: "string list"
  PathNames :: "string list"
  ErrorMessage :: string

definition IdentityBody_zero :: IdentityBody where
  "IdentityBody_zero =
     \<lparr>DeviceId = [], DeviceName = [], DeviceType = [], ProtocolVersion = 0, TcpPort = 0,
      BluetoothAddress = [], IncomingCapabilities = [], OutgoingCapabilities = []\<rparr>"

definition PairBody_zero :: PairBody where
  "PairBody_zero = \<lparr>Pair' = False, Timestamp = 0\<rparr>"

definition SftpBody_zero :: SftpBody where
  "SftpBody_zero =
     \<lparr>StartBrowsing = False, Ip = [], Port = 0, User = [], Password = [], Path = [],
      MultiPaths = [], PathNames = [], ErrorMessage = []\<rparr>"

text \<open>The result of storing a member, put into its field.\<close>

definition into :: "json_error + 'a \<Rightarrow> ('a \<Rightarrow> 's) \<Rightarrow> json_error + 's" where
  "into r upd = (case r of Inl err \<Rightarrow> Inl err | Inr a \<Rightarrow> Inr (upd a))"

definition IdentityBody_member ::
  "IdentityBody \<Rightarrow> string \<times> json \<Rightarrow> json_error + IdentityBody"
where
  "IdentityBody_member b kv =
     (let k = foldName (fst kv); v = snd kv
      in if k = foldName ''deviceId'' then
           into (store_string v (DeviceId b)) (\<lambda>x. b\<lparr>DeviceId := x\<rparr>)
         else if k = foldName ''deviceName'' then
           into (store_string v (DeviceName b)) (\<lambda>x. b\<lparr>DeviceName := x\<rparr>)
         else if k = foldName ''deviceType'' then
           into (store_string v (DeviceType b)) (\<lambda>x. b\<lparr>DeviceType := x\<rparr>)
         else if k = foldName ''protocolVersion'' then
           into (store_int v (ProtocolVersion b)) (\<lambda>x. b\<lparr>ProtocolVersion := x\<rparr>)
         else if k = foldName ''tcpPort'' then
           into (store_int v (TcpPort b)) (\<lambda>x. b\<lparr>TcpPort := x\<rparr>)
         else if k = foldName ''bluetoothAddress'' then
           into (store_string v (BluetoothAddress b)) (\<lambda>x. b\<lparr>BluetoothAddress := x\<rparr>)
         else if k = foldName ''incomingCapabilities'' then
           into (store_strings v (IncomingCapabilities b)) (\<lambda>x. b\<lparr>IncomingCapabilities := x\<rparr>)
         else if k = foldName ''outgoingCapabilities'' then
           into (store_strings v (OutgoingCapabilities b)) (\<lambda>x. b\<lparr>OutgoingCapabilities := x\<rparr>)
         else Inr b)"

definition PairBody_member :: "PairBody \<Rightarrow> string \<times> json \<Rightarrow> json_error + PairBody" where
  "PairBody_member b kv =
     (let k = foldName (fst kv); v = snd kv
      in if k = foldName ''pair'' then
           into (store_bool v (Pair' b)) (\<lambda>x. b\<lparr>Pair' := x\<rparr>)
         else if k = foldName ''timestamp'' then
           into (store_int64 v (Timestamp b)) (\<lambda>x. b\<lparr>Timestamp := x\<rparr>)
         else Inr b)"

definition SftpBody_member :: "SftpBody \<Rightarrow> string \<times> json \<Rightarrow> json_error + SftpBody" where
  "SftpBody_member b kv =
     (let k = foldName (fst kv); v = snd kv
      in if k = foldName ''startBrowsing'' then
           into (store_bool v (StartBrowsing b)) (\<lambda>x. b\<lparr>StartBrowsing := x\<rparr>)
         else if k = foldName ''ip'' then
           into (store_string v (Ip b)) (\<lambda>x. b\<lparr>Ip := x\<rparr>)
         else if k = foldName ''port'' then
           into (store_int v (Port b)) (\<lambda>x. b\<lparr>Port := x\<rparr>)
         else if k = foldName ''user'' then
           into (store_string v (User b)) (\<lambda>x. b\<lparr>User := x\<rparr>)
         else if k = foldName ''password'' then
           into (store_string v (Password b)) (\<lambda>x. b\<lparr>Password := x\<rparr>)
         else if k = foldName ''path'' then
           into (store_string v (Path b)) (\<lambda>x. b\<lparr>Path := x\<rparr>)
         else if k = foldName ''multiPaths'' then
           into (store_strings v (MultiPaths b)) (\<lambda>x. b\<lparr>MultiPaths := x\<rparr>)
         else if k = foldName ''pathNames'' then
           into (store_strings v (PathNames b)) (\<lambda>x. b\<lparr>PathNames := x\<rparr>)
         else if k = foldName ''errorMessage'' then
           into (store_string v (ErrorMessage b)) (\<lambda>x. b\<lparr>ErrorMessage := x\<rparr>)
         else Inr b)"

text \<open>
  \<^verbatim>\<open>json.Unmarshal(p.Body, &x)\<close> into a fresh struct; the nil body of a packet that
  had none is not JSON.
\<close>

definition Unmarshal_Body ::
  "('s \<Rightarrow> string \<times> json \<Rightarrow> json_error + 's) \<Rightarrow> json option \<Rightarrow> 's \<Rightarrow> json_error + 's"
where
  "Unmarshal_Body f raw zero =
     (case raw of None \<Rightarrow> Inl SyntaxError | Some v \<Rightarrow> unmarshal_struct f v zero)"

definition Unmarshal_IdentityBody :: "json option \<Rightarrow> json_error + IdentityBody" where
  "Unmarshal_IdentityBody raw = Unmarshal_Body IdentityBody_member raw IdentityBody_zero"

definition Unmarshal_PairBody :: "json option \<Rightarrow> json_error + PairBody" where
  "Unmarshal_PairBody raw = Unmarshal_Body PairBody_member raw PairBody_zero"

definition Unmarshal_SftpBody :: "json option \<Rightarrow> json_error + SftpBody" where
  "Unmarshal_SftpBody raw = Unmarshal_Body SftpBody_member raw SftpBody_zero"

section \<open>Addresses and connections (internal/network)\<close>

text \<open>
  Of a \<^verbatim>\<open>*net.UDPAddr\<close> the engine reads \<^verbatim>\<open>addr.IP.String()\<close> and
  \<^verbatim>\<open>addr.Port\<close>; \<open>IP\<close> is that string. A nil pointer is \<open>None\<close>.
\<close>

record UDPAddr =
  IP :: string
  Port :: int

text \<open>
  \<^verbatim>\<open>net.ResolveUDPAddr("udp", net.JoinHostPort(host, fmt.Sprintf("%d", port)))\<close>
  with the error dropped, for a host that is an IP literal or empty (what
  \<^verbatim>\<open>net.SplitHostPort\<close> gave for the remote address of a connection): nil when the
  port is not a UDP port, and the empty host resolves to the nil IP, printed
  \<^verbatim>\<open><nil>\<close>.
\<close>

definition ResolveUDPAddr :: "string \<Rightarrow> int \<Rightarrow> UDPAddr option" where
  "ResolveUDPAddr host port =
     (if 0 \<le> port \<and> port \<le> 65535
      then Some \<lparr>IP = (if host = [] then ''<nil>'' else host), Port = port\<rparr>
      else None)"

text \<open>
  Of the \<^verbatim>\<open>net.Conn\<close> inside a connection the engine reads the host of the remote
  address, whether it is a \<^verbatim>\<open>*tls.Conn\<close>, and the peer certificates of the TLS
  session.
\<close>

record NetConn =
  RemoteHost :: string
  IsTLS :: bool
  PeerCertificates :: "Certificate list"

text \<open>
  A \<^verbatim>\<open>*Connection\<close> is an address in the store of connections. The two callbacks
  are closures; each is named by the code it runs and the variables it captured.
\<close>

type_synonym conn_ptr = nat

datatype packet_handler = CallHandlePacket conn_ptr

datatype disconnect_handler =
    DeleteIfSame string conn_ptr
  | DeleteAlways string

record Connection =
  Conn :: NetConn
  DeviceId :: string
  RemoteIdentity :: IdentityBody
  OnPacket :: "packet_handler option"
  OnDisconnect :: "disconnect_handler option"

definition NewConnection :: "NetConn \<Rightarrow> string \<Rightarrow> IdentityBody \<Rightarrow> Connection" where
  "NewConnection conn deviceId remoteIdentity =
     \<lparr>Conn = conn, DeviceId = deviceId, RemoteIdentity = remoteIdentity,
      OnPacket = None, OnDisconnect = None\<rparr>"

datatype error =
    DialError
  | FailedToSendPlainIdentity
  | TlsHandshakeFailed
  | FailedToSendEncryptedIdentity
  | FailedToReadSecureIdentity
  | InvalidSecureIdentityPacket
  | InvalidSecureIdentityBody
  | WriteError
  | DeviceNotPaired
  | DeviceNotFound string
  | MissingAddress string
  | GenerateCertificateError

text \<open>
  What the remote end of an outbound connection does is input: whether it accepts the
  TCP connection, takes the plain identity, completes the TLS handshake (and with which
  certificates), takes the encrypted identity, and which line it sends (\<open>None\<close>: the
  read fails; \<open>Some None\<close>: the line is not JSON).
\<close>

record Peer =
  accepts :: bool
  takes_plain_identity :: bool
  completes_handshake :: bool
  presents :: "Certificate list"
  takes_encrypted_identity :: bool
  sends_line :: "json option option"

text \<open>
  The only check of the peer's certificates is \<^verbatim>\<open>VerifyPeerCertificate\<close> of the
  TLS configuration (\<^verbatim>\<open>InsecureSkipVerify\<close> is set): it returns nil for every chain.
  \<^verbatim>\<open>RequireAnyClientCert\<close> makes the handshake fail when the peer presents none.
\<close>

definition VerifyPeerCertificate :: "Certificate list \<Rightarrow> error option" where
  "VerifyPeerCertificate rawCerts = None"

definition Connect ::
  "(string \<Rightarrow> int \<Rightarrow> Peer) \<Rightarrow> string \<Rightarrow> int \<Rightarrow> Certificate \<Rightarrow> IdentityBody \<Rightarrow> error + Connection"
where
  "Connect net ip port cert myIdentity =
     (let peer = net ip port
      in if \<not> accepts peer then Inl DialError
         else if \<not> takes_plain_identity peer then Inl FailedToSendPlainIdentity
         else if \<not> completes_handshake peer \<or> presents peer = []
                 \<or> VerifyPeerCertificate (presents peer) \<noteq> None then Inl TlsHandshakeFailed
         else if \<not> takes_encrypted_identity peer then Inl FailedToSendEncryptedIdentity
         else
           (case sends_line peer of
              None \<Rightarrow> Inl FailedToReadSecureIdentity
            | Some None \<Rightarrow> Inl InvalidSecureIdentityPacket
            | Some (Some line) \<Rightarrow>
                (case Unmarshal_Packet line of
                   Inl err \<Rightarrow> Inl InvalidSecureIdentityPacket
                 | Inr p \<Rightarrow>
                     (case Unmarshal_IdentityBody (Body p) of
                        Inl err \<Rightarrow> Inl InvalidSecureIdentityBody
                      | Inr remoteIdentity \<Rightarrow>
                          Inr (NewConnection
                                 \<lparr>RemoteHost = ip, IsTLS = True, PeerCertificates = presents peer\<rparr>
                                 (IdentityBody.DeviceId remoteIdentity) remoteIdentity)))))"

section \<open>Engine (internal/core)\<close>

record DiscoveredDevice =
  Identity :: IdentityBody
  Addr :: "UDPAddr option"

record PairRequest =
  RemoteIP :: string
  Identity :: IdentityBody
  VerificationKey :: string

record PairedDeviceInfo =
  Identity :: IdentityBody
  LastIP :: string
  LastPort :: int

record Config =
  Identity :: IdentityBody
  PairedDevices :: "string \<rightharpoonup> PairedDeviceInfo"

text \<open>
  What the engine does to the outside is recorded as a list of effects, in the order
  of the calls: \<^verbatim>\<open>e.Events.Emit(name, data)\<close>, the file written by
  \<^verbatim>\<open>SaveConfig\<close> and by \<^verbatim>\<open>SaveCertificate\<close>, a packet handed to
  \<^verbatim>\<open>Connection.SendPacket\<close>, and \<^verbatim>\<open>go newConn.StartLoop()\<close>.
\<close>

datatype event_data =
    DiscoveredDeviceData DiscoveredDevice
  | PairRequestData PairRequest
  | StringData string

datatype packet_body =
    PairBodyOf PairBody
  | SftpBodyOf SftpBody
  | RawBody json

datatype effect =
    EmitEvent string event_data
  | WriteConfig Config
  | WriteCertificate Certificate
  | WritePacket conn_ptr string packet_body
  | GoStartLoop conn_ptr

text \<open>
  The maps of the engine, keyed by device id. \<open>Cert\<close> is the engine's own leaf
  certificate, as \<^verbatim>\<open>x509.ParseCertificate(e.Cert.Certificate[0])\<close> reads it.
  \<open>conns\<close> is the store of the \<^verbatim>\<open>Connection\<close> objects that the pointers in
  \<open>activeConns\<close> and in the closures refer to, and \<open>next_conn\<close> the address of the
  next object allocated. The mutex is not modelled: every function below runs alone.
\<close>

record Engine =
  Identity :: IdentityBody
  Cert :: Certificate
  discoveredDevices :: "string \<rightharpoonup> DiscoveredDevice"
  pairedDevices :: "string \<rightharpoonup> PairedDeviceInfo"
  sftpOffers :: "string \<rightharpoonup> SftpBody"
  activeConns :: "string \<rightharpoonup> conn_ptr"
  pendingPairing :: "string \<rightharpoonup> bool"
  conns :: "conn_ptr \<rightharpoonup> Connection"
  next_conn :: conn_ptr

text \<open>
  The input of the engine's functions: the network, the clock
  (\<^verbatim>\<open>time.Now().Unix()\<close>) and whether a write on a connection fails.
\<close>

record Env =
  network :: "string \<Rightarrow> int \<Rightarrow> Peer"
  now_unix :: "64 word"
  write_fails :: "conn_ptr \<Rightarrow> bool"

text \<open>A nil pointer dereference ends the program.\<close>

datatype panic = NilPointerDereference

type_synonym step = "panic + Engine \<times> effect list"

definition new_Connection :: "Engine \<Rightarrow> Connection \<Rightarrow> conn_ptr \<times> Engine" where
  "new_Connection e c =
     (next_conn e, e\<lparr>conns := (conns e)(next_conn e \<mapsto> c), next_conn := Suc (next_conn e)\<rparr>)"

definition SaveConfig :: "Engine \<Rightarrow> effect" where
  "SaveConfig e =
     WriteConfig \<lparr>Config.Identity = Engine.Identity e, PairedDevices = pairedDevices e\<rparr>"

definition IsPaired :: "Engine \<Rightarrow> string \<Rightarrow> bool" where
  "IsPaired e deviceId = (case pairedDevices e deviceId of Some info \<Rightarrow> True | None \<Rightarrow> False)"

definition IsDiscovered :: "Engine \<Rightarrow> string \<Rightarrow> bool" where
  "IsDiscovered e deviceId =
     (case discoveredDevices e deviceId of Some dev \<Rightarrow> True | None \<Rightarrow> False)"

definition addDiscoveredDevice :: "Engine \<Rightarrow> IdentityBody \<Rightarrow> UDPAddr option \<Rightarrow> step" where
  "addDiscoveredDevice e identity addr =
     (let dev = \<lparr>DiscoveredDevice.Identity = identity, Addr = addr\<rparr>;
          e1 = e\<lparr>discoveredDevices :=
                    (discoveredDevices e)(IdentityBody.DeviceId identity \<mapsto> dev)\<rparr>
      in case pairedDevices e1 (IdentityBody.DeviceId identity) of
           None \<Rightarrow> Inr (e1, [EmitEvent ''device_discovered'' (DiscoveredDeviceData dev)])
         | Some info \<Rightarrow>
             (case addr of
                None \<Rightarrow> Inl NilPointerDereference
              | Some a \<Rightarrow>
                  if LastIP info \<noteq> IP a
                     \<or> DeviceName (PairedDeviceInfo.Identity info) \<noteq> DeviceName identity
                  then
                    let info' = info\<lparr>LastIP := IP a, LastPort := UDPAddr.Port a,
                                      PairedDeviceInfo.Identity := identity\<rparr>;
                        e2 = e1\<lparr>pairedDevices :=
                                   (pairedDevices e1)(IdentityBody.DeviceId identity \<mapsto> info')\<rparr>
                    in Inr (e2, [SaveConfig e2,
                                 EmitEvent ''device_discovered'' (DiscoveredDeviceData dev)])
                  else Inr (e1, [EmitEvent ''device_discovered'' (DiscoveredDeviceData dev)])))"

definition MarkAsPaired :: "Engine \<Rightarrow> string \<Rightarrow> step" where
  "MarkAsPaired e deviceId =
     (case discoveredDevices e deviceId of
        Some dev \<Rightarrow>
          (case Addr dev of
             None \<Rightarrow> Inl NilPointerDereference
           | Some a \<Rightarrow>
               let e1 = e\<lparr>pairedDevices := (pairedDevices e)(deviceId \<mapsto>
                            \<lparr>PairedDeviceInfo.Identity = DiscoveredDevice.Identity dev,
                             LastIP = IP a, LastPort = UDPAddr.Port a\<rparr>)\<rparr>
               in Inr (e1, [SaveConfig e1, EmitEvent ''pairing_changed'' (StringData deviceId)]))
      | None \<Rightarrow> Inr (e, [SaveConfig e, EmitEvent ''pairing_changed'' (StringData deviceId)]))"

text \<open>
  \<^verbatim>\<open>handleNewConnection(conn)\<close>: the connection replaces whatever was registered
  for its device id, the peer is recorded as discovered, and the two callbacks are set;
  the disconnect callback deletes the entry only if it still holds this connection.
\<close>

definition handleNewConnection :: "Engine \<Rightarrow> conn_ptr \<Rightarrow> step" where
  "handleNewConnection e conn =
     (case conns e conn of
        None \<Rightarrow> Inl NilPointerDereference
      | Some c \<Rightarrow>
          let deviceId = Connection.DeviceId c;
              e1 = e\<lparr>activeConns := (activeConns e)(deviceId \<mapsto> conn)\<rparr>;
              remoteIP = RemoteHost (Conn c);
              addr = ResolveUDPAddr remoteIP (TcpPort (RemoteIdentity c))
          in (case addDiscoveredDevice e1 (RemoteIdentity c) addr of
                Inl pn \<Rightarrow> Inl pn
              | Inr (e2, out) \<Rightarrow>
                  Inr (e2\<lparr>conns := (conns e2)(conn \<mapsto>
                             c\<lparr>OnPacket := Some (CallHandlePacket conn),
                               OnDisconnect := Some (DeleteIfSame deviceId conn)\<rparr>)\<rparr>,
                       out)))"

text \<open>The two closures that are installed as \<^verbatim>\<open>OnDisconnect\<close>.\<close>

fun run_OnDisconnect :: "Engine \<Rightarrow> disconnect_handler \<Rightarrow> Engine" where
  "run_OnDisconnect e (DeleteIfSame deviceId conn) =
     (if activeConns e deviceId = Some conn
      then e\<lparr>activeConns := (activeConns e)(deviceId := None)\<rparr>
      else e)"
| "run_OnDisconnect e (DeleteAlways deviceId) =
     e\<lparr>activeConns := (activeConns e)(deviceId := None)\<rparr>"

text \<open>\<^verbatim>\<open>if c.OnDisconnect != nil { c.OnDisconnect() }\<close> of \<^verbatim>\<open>StartLoop\<close>.\<close>

definition disconnect :: "Engine \<Rightarrow> conn_ptr \<Rightarrow> step" where
  "disconnect e conn =
     (case conns e conn of
        None \<Rightarrow> Inl NilPointerDereference
      | Some c \<Rightarrow>
          (case OnDisconnect c of
             None \<Rightarrow> Inr (e, [])
           | Some h \<Rightarrow> Inr (run_OnDisconnect e h, [])))"

text \<open>
  \<^verbatim>\<open>getOrConnect(deviceId)\<close> returns the registered connection, or dials the
  discovered (else the last paired) address, registers the new connection, sets its
  callbacks and starts its reader.
\<close>

definition dial_and_register ::
  "Env \<Rightarrow> Engine \<Rightarrow> string \<Rightarrow> string \<Rightarrow> int \<Rightarrow> panic + (error + conn_ptr) \<times> Engine \<times> effect list"
where
  "dial_and_register env e deviceId ip port =
     (if ip = [] \<or> port = 0 then Inr (Inl (MissingAddress deviceId), e, [])
      else
        (case Connect (network env) ip port (Cert e) (Engine.Identity e) of
           Inl err \<Rightarrow> Inr (Inl err, e, [])
         | Inr c \<Rightarrow>
             let (newConn, e1) = new_Connection e c;
                 e2 = e1\<lparr>activeConns := (activeConns e1)(deviceId \<mapsto> newConn)\<rparr>;
                 e3 = e2\<lparr>conns := (conns e2)(newConn \<mapsto>
                            c\<lparr>OnPacket := Some (CallHandlePacket newConn),
                              OnDisconnect := Some (DeleteAlways deviceId)\<rparr>)\<rparr>
             in Inr (Inr newConn, e3, [GoStartLoop newConn])))"

definition getOrConnect ::
  "Env \<Rightarrow> Engine \<Rightarrow> string \<Rightarrow> panic + (error + conn_ptr) \<times> Engine \<times> effect list"
where
  "getOrConnect env e deviceId =
     (case activeConns e deviceId of
        Some conn \<Rightarrow> Inr (Inr conn, e, [])
      | None \<Rightarrow>
          (case discoveredDevices e deviceId of
             Some dev \<Rightarrow>
               (case Addr dev of
                  None \<Rightarrow> Inl NilPointerDereference
                | Some a \<Rightarrow>
                    dial_and_register env e deviceId (IP a)
                      (TcpPort (DiscoveredDevice.Identity dev)))
           | None \<Rightarrow>
               (case pairedDevices e deviceId of
                  Some info \<Rightarrow> dial_and_register env e deviceId (LastIP info) (LastPort info)
                | None \<Rightarrow> Inr (Inl (DeviceNotFound deviceId), e, []))))"

text \<open>\<^verbatim>\<open>Connection.SendPacket\<close>: the packet is written; the write may fail.\<close>

definition Connection_SendPacket ::
  "Env \<Rightarrow> conn_ptr \<Rightarrow> string \<Rightarrow> packet_body \<Rightarrow> error option \<times> effect list"
where
  "Connection_SendPacket env conn pType body =
     ((if write_fails env conn then Some WriteError else None), [WritePacket conn pType body])"

definition SendPacket ::
  "Env \<Rightarrow> Engine \<Rightarrow> string \<Rightarrow> string \<Rightarrow> packet_body \<Rightarrow> panic + error option \<times> Engine \<times> effect list"
where
  "SendPacket env e deviceId pType body =
     (case getOrConnect env e deviceId of
        Inl pn \<Rightarrow> Inl pn
      | Inr (Inl err, e1, out) \<Rightarrow> Inr (Some err, e1, out)
      | Inr (Inr conn, e1, out) \<Rightarrow>
          let (err, out') = Connection_SendPacket env conn pType body
          in Inr (err, e1, out @ out'))"

definition Engine_Pair ::
  "Env \<Rightarrow> Engine \<Rightarrow> string \<Rightarrow> panic + error option \<times> Engine \<times> effect list"
where
  "Engine_Pair env e deviceId =
     SendPacket env (e\<lparr>pendingPairing := (pendingPairing e)(deviceId \<mapsto> True)\<rparr>) deviceId
       ''kdeconnect.pair'' (PairBodyOf \<lparr>Pair' = True, Timestamp = now_unix env\<rparr>)"

definition Unpair ::
  "Env \<Rightarrow> Engine \<Rightarrow> string \<Rightarrow> panic + error option \<times> Engine \<times> effect list"
where
  "Unpair env e deviceId =
     (case pairedDevices e deviceId of
        None \<Rightarrow> Inr (Some DeviceNotPaired, e, [])
      | Some info \<Rightarrow>
          let e1 = e\<lparr>pairedDevices := (pairedDevices e)(deviceId := None)\<rparr>
          in (case SendPacket env e1 deviceId ''kdeconnect.pair''
                     (PairBodyOf \<lparr>Pair' = False, Timestamp = now_unix env\<rparr>) of
                Inl pn \<Rightarrow> Inl pn
              | Inr (err, e2, out) \<Rightarrow>
                  Inr (None, e2,
                       [SaveConfig e1, EmitEvent ''pairing_changed'' (StringData deviceId)]
                       @ out)))"

text \<open>\<^verbatim>\<open>handlePacket(conn, p)\<close>, the dispatch on the type of a received packet.\<close>

definition handlePacket :: "Env \<Rightarrow> Engine \<Rightarrow> conn_ptr \<Rightarrow> Packet \<Rightarrow> step" where
  "handlePacket env e conn p =
     (case conns e conn of
        None \<Rightarrow> Inl NilPointerDereference
      | Some c \<Rightarrow>
          if Type p = ''kdeconnect.pair'' then
            (case Unmarshal_PairBody (Body p) of
               Inl err \<Rightarrow> Inr (e, [])
             | Inr pair \<Rightarrow>
                 if Pair' pair then
                   let remoteIP = RemoteHost (Conn c);
                       key = (if IsTLS (Conn c) then
                                (case PeerCertificates (Conn c) of
                                   [] \<Rightarrow> []
                                 | peer # rest \<Rightarrow>
                                     GetVerificationKey (Cert e) peer (Timestamp pair))
                              else []);
                       exists = IsDiscovered e (Connection.DeviceId c);
                       isPending = (pendingPairing e (Connection.DeviceId c) = Some True)
                   in if isPending then
                        MarkAsPaired
                          (e\<lparr>pendingPairing :=
                               (pendingPairing e)(Connection.DeviceId c := None)\<rparr>)
                          (Connection.DeviceId c)
                      else
                        (case (if \<not> exists
                               then addDiscoveredDevice e (RemoteIdentity c)
                                      (ResolveUDPAddr remoteIP (TcpPort (RemoteIdentity c)))
                               else Inr (e, [])) of
                           Inl pn \<Rightarrow> Inl pn
                         | Inr (e1, out) \<Rightarrow>
                             Inr (e1, out @
                               [EmitEvent ''pair_request'' (PairRequestData
                                  \<lparr>RemoteIP = remoteIP,
                                   PairRequest.Identity = RemoteIdentity c,
                                   VerificationKey = key\<rparr>)]))
                 else
                   (case Unpair env e (Connection.DeviceId c) of
                      Inl pn \<Rightarrow> Inl pn
                    | Inr (err, e1, out) \<Rightarrow> Inr (e1, out)))
          else if Type p = ''kdeconnect.ping'' then
            Inr (e, snd (Connection_SendPacket env conn ''kdeconnect.ping'' (RawBody (JObject []))))
          else if Type p = ''kdeconnect.sftp'' then
            (case Unmarshal_SftpBody (Body p) of
               Inr sftpBody \<Rightarrow>
                 if SftpBody.Port sftpBody \<noteq> 0 then
                   Inr (e\<lparr>sftpOffers := (sftpOffers e)(Connection.DeviceId c \<mapsto> sftpBody)\<rparr>,
                        [EmitEvent ''sftp_offer'' (StringData (Connection.DeviceId c))])
                 else Inr (e, [])
             | Inl err \<Rightarrow> Inr (e, []))
          else Inr (e, []))"

text \<open>
  \<^verbatim>\<open>Connection.StartLoop\<close> on the values the decoder meets on the stream
  (\<open>None\<close>: bytes that are not JSON). A value that does not decode, and the end of the
  stream, end the loop through \<^verbatim>\<open>OnDisconnect\<close>; every packet goes to
  \<^verbatim>\<open>OnPacket\<close>.
\<close>

definition run_OnPacket :: "Env \<Rightarrow> Engine \<Rightarrow> conn_ptr \<Rightarrow> Packet \<Rightarrow> step" where
  "run_OnPacket env e conn p =
     (case conns e conn of
        None \<Rightarrow> Inl NilPointerDereference
      | Some c \<Rightarrow>
          (case OnPacket c of
             None \<Rightarrow> Inr (e, [])
           | Some (CallHandlePacket conn') \<Rightarrow> handlePacket env e conn' p))"

fun StartLoop :: "Env \<Rightarrow> Engine \<Rightarrow> conn_ptr \<Rightarrow> json option list \<Rightarrow> step" where
  "StartLoop env e conn [] = disconnect e conn"
| "StartLoop env e conn (None # stream) = disconnect e conn"
| "StartLoop env e conn (Some v # stream) =
     (case Unmarshal_Packet v of
        Inl err \<Rightarrow> disconnect e conn
      | Inr p \<Rightarrow>
          (case run_OnPacket env e conn p of
             Inl pn \<Rightarrow> Inl pn
           | Inr (e1, out) \<Rightarrow>
               (case StartLoop env e1 conn stream of
                  Inl pn \<Rightarrow> Inl pn
                | Inr (e2, out') \<Rightarrow> Inr (e2, out @ out'))))"

section \<open>Engine creation (NewEngine)\<close>

text \<open>
  What \<^verbatim>\<open>NewEngine\<close> reads from outside: the outcome of \<^verbatim>\<open>LoadConfig\<close> (the
  identity and the paired devices of an existing configuration, \<open>None\<close> when it fails),
  of \<^verbatim>\<open>LoadCertificate\<close>, the clock \<^verbatim>\<open>time.Now().UnixNano()\<close>, the certificate
  generated for a common name (\<open>None\<close>: an error), the Bluetooth address of the host,
  and which ports can be listened on.
\<close>

record Startup =
  LoadConfig_result :: "(IdentityBody \<times> (string \<rightharpoonup> PairedDeviceInfo)) option"
  LoadCertificate_result :: "Certificate option"
  UnixNano :: "64 word"
  GenerateCertificate_result :: "string \<Rightarrow> Certificate option"
  getBluetoothAddress_result :: string
  Listen_ok :: "int \<Rightarrow> bool"

definition engine_with ::
  "IdentityBody \<Rightarrow> Certificate \<Rightarrow> (string \<rightharpoonup> PairedDeviceInfo) \<Rightarrow> Engine"
where
  "engine_with identity cert paired =
     \<lparr>Engine.Identity = identity, Cert = cert, discoveredDevices = Map.empty,
      pairedDevices = paired, sftpOffers = Map.empty, activeConns = Map.empty,
      pendingPairing = Map.empty, conns = Map.empty, next_conn = 0\<rparr>"

text \<open>\<^verbatim>\<open>deviceId := fmt.Sprintf("fyne-%030x", time.Now().UnixNano())\<close>\<close>

definition fresh_deviceId :: "64 word \<Rightarrow> string" where
  "fresh_deviceId nano = ''fyne-'' @ Sprintf_030x nano"

text \<open>The first port of 1716..1764 that can be listened on, 1716 if there is none.\<close>

definition first_free_port :: "(int \<Rightarrow> bool) \<Rightarrow> int" where
  "first_free_port ok = (case List.find ok [1716..1764] of Some p \<Rightarrow> p | None \<Rightarrow> 1716)"

text \<open>
  \<^verbatim>\<open>NewEngine(deviceName)\<close>. With a configuration and a certificate on disk the
  engine takes them over (and saves the configuration if the name or the Bluetooth
  address changed). Otherwise it makes a fresh device id, certificate and identity and
  saves them; paired devices of a configuration whose certificate could not be loaded
  stay in the map.
\<close>

definition NewEngine :: "string \<Rightarrow> Startup \<Rightarrow> error + Engine \<times> effect list" where
  "NewEngine deviceName st =
     (case (case LoadConfig_result st of
              None \<Rightarrow> None
            | Some cfg \<Rightarrow>
                (case LoadCertificate_result st of
                   None \<Rightarrow> None
                 | Some cert \<Rightarrow> Some (cfg, cert))) of
        Some ((identity, paired), cert) \<Rightarrow>
          let named = (if DeviceName identity \<noteq> deviceName
                       then identity\<lparr>DeviceName := deviceName\<rparr> else identity);
              addr = getBluetoothAddress_result st;
              fill = (BluetoothAddress named = [] \<and> addr \<noteq> []);
              identity' = (if fill then named\<lparr>BluetoothAddress := addr\<rparr> else named);
              changed = (DeviceName identity \<noteq> deviceName \<or> fill);
              engine = engine_with identity' cert paired
          in Inr (engine, if changed then [SaveConfig engine] else [])
      | None \<Rightarrow>
          let deviceId = fresh_deviceId (UnixNano st)
          in (case GenerateCertificate_result st deviceId of
               None \<Rightarrow> Inl GenerateCertificateError
             | Some cert \<Rightarrow>
                 let port = first_free_port (Listen_ok st);
                     identity =
                       \<lparr>IdentityBody.DeviceId = deviceId, DeviceName = deviceName,
                        DeviceType = ''desktop'', ProtocolVersion = 8, TcpPort = port,
                        BluetoothAddress = getBluetoothAddress_result st,
                        IncomingCapabilities =
                          [''kdeconnect.ping'', ''kdeconnect.identity'', ''kdeconnect.pair'',
                           ''kdeconnect.sftp''],
                        OutgoingCapabilities =
                          [''kdeconnect.ping'', ''kdeconnect.identity'', ''kdeconnect.pair'',
                           ''kdeconnect.sftp'']\<rparr>;
                     paired = (case LoadConfig_result st of
                                 None \<Rightarrow> Map.empty
                               | Some (loaded, devices) \<Rightarrow> devices);
                     engine = engine_with identity cert paired
                 in Inr (engine, [SaveConfig engine, WriteCertificate cert])))"

section \<open>Discovery listener (internal/network/discovery.go, Engine.Start)\<close>

text \<open>The callback that \<^verbatim>\<open>Engine.Start\<close> hands to \<^verbatim>\<open>ListenDiscovery\<close>.\<close>

definition discovery_callback :: "Engine \<Rightarrow> Packet \<Rightarrow> UDPAddr \<Rightarrow> step" where
  "discovery_callback e p addr =
     (if Type p = ''kdeconnect.identity'' then
        (case Unmarshal_IdentityBody (Body p) of
           Inr idBody \<Rightarrow>
             if IdentityBody.DeviceId idBody \<noteq> IdentityBody.DeviceId (Engine.Identity e)
             then addDiscoveredDevice e idBody (Some addr)
             else Inr (e, [])
         | Inl err \<Rightarrow> Inr (e, []))
      else Inr (e, []))"

text \<open>
  \<^verbatim>\<open>ListenDiscovery(handler)\<close> on the datagrams received, each with its source
  address (\<open>None\<close>: a payload that is not JSON). A datagram that decodes to a packet
  goes to the handler, the others are dropped.
\<close>

fun ListenDiscovery ::
  "(Engine \<Rightarrow> Packet \<Rightarrow> UDPAddr \<Rightarrow> step) \<Rightarrow> Engine \<Rightarrow> (json option \<times> UDPAddr) list \<Rightarrow> step"
where
  "ListenDiscovery handler e [] = Inr (e, [])"
| "ListenDiscovery handler e ((data, remoteAddr) # rest) =
     (case (case data of
              None \<Rightarrow> Inr (e, [])
            | Some v \<Rightarrow>
                (case Unmarshal_Packet v of
                   Inl err \<Rightarrow> Inr (e, [])
                 | Inr p \<Rightarrow> handler e p remoteAddr)) of
        Inl pn \<Rightarrow> Inl pn
      | Inr (e1, out) \<Rightarrow>
          (case ListenDiscovery handler e1 rest of
             Inl pn \<Rightarrow> Inl pn
           | Inr (e2, out') \<Rightarrow> Inr (e2, out @ out')))"

section \<open>Event emitter (internal/events)\<close>

text \<open>
  A listener is a Go function value; \<open>Plain f\<close> is the function \<open>f\<close> a caller hands to
  \<^verbatim>\<open>On\<close>, \<open>OnceWrapper f\<close> the closure that \<^verbatim>\<open>Once\<close> builds around \<open>f\<close>.
\<close>

datatype 'f Listener = Plain 'f | OnceWrapper 'f

record 'f EventEmitter =
  listeners :: "string \<rightharpoonup> 'f Listener list"

definition NewEventEmitter :: "'f EventEmitter" where
  "NewEventEmitter = \<lparr>listeners = Map.empty\<rparr>"

text \<open>\<^verbatim>\<open>e.listeners[event]\<close> of a missing key is the nil slice.\<close>

definition listeners_of :: "'f EventEmitter \<Rightarrow> string \<Rightarrow> 'f Listener list" where
  "listeners_of e event = (case listeners e event of None \<Rightarrow> [] | Some ls \<Rightarrow> ls)"

definition On :: "'f EventEmitter \<Rightarrow> string \<Rightarrow> 'f Listener \<Rightarrow> 'f EventEmitter" where
  "On e event listener = e\<lparr>listeners := (listeners e)(event \<mapsto> listeners_of e event @ [listener])\<rparr>"

text \<open>The body of \<^verbatim>\<open>Off\<close> is empty.\<close>

definition Off :: "'f EventEmitter \<Rightarrow> string \<Rightarrow> 'f Listener \<Rightarrow> 'f EventEmitter" where
  "Off e event listener = e"

definition Once :: "'f EventEmitter \<Rightarrow> string \<Rightarrow> 'f \<Rightarrow> 'f EventEmitter" where
  "Once e event listener = On e event (OnceWrapper listener)"

text \<open>
  \<^verbatim>\<open>Emit\<close> starts one goroutine per registered listener; the result is the list of the
  calls started, in the order of the loop.
\<close>

definition Emit :: "'f EventEmitter \<Rightarrow> string \<Rightarrow> 'd \<Rightarrow> ('f Listener \<times> 'd) list" where
  "Emit e event data =
     (case listeners e event of
        Some ls \<Rightarrow> map (\<lambda>listener. (listener, data)) ls
      | None \<Rightarrow> [])"

text \<open>A caller's sequence of calls to the emitter.\<close>

datatype 'f emitter_call =
    CallOn string "'f Listener"
  | CallOff string "'f Listener"
  | CallOnce string 'f

fun emitter_calls :: "'f EventEmitter \<Rightarrow> 'f emitter_call list \<Rightarrow> 'f EventEmitter" where
  "emitter_calls e [] = e"
| "emitter_calls e (CallOn event l # cs) = emitter_calls (On e event l) cs"
| "emitter_calls e (CallOff event l # cs) = emitter_calls (Off e event l) cs"
| "emitter_calls e (CallOnce event f # cs) = emitter_calls (Once e event f) cs"

section \<open>Notions used in the statements\<close>

text \<open>A lowercase hexadecimal digit.\<close>

definition is_hex :: "char \<Rightarrow> bool" where
  "is_hex c \<longleftrightarrow> c \<in> set ''0123456789abcdef''"

text \<open>
  A member that the packet decoder takes: an \<open>id\<close> that is \<^verbatim>\<open>null\<close> or an integer
  of 64 bits, a \<open>type\<close> that is \<^verbatim>\<open>null\<close> or a string, and any other member
  whatever its value. Here and in \<open>has_member\<close> a member is an \<open>id\<close>, a \<open>type\<close> or
  a \<open>body\<close> member when its name is that word in any mix of upper and lower case
  (the case folding of the library).
\<close>

definition member_accepted :: "string \<times> json \<Rightarrow> bool" where
  "member_accepted kv =
     (let k = foldName (fst kv); v = snd kv
      in if k = foldName ''id'' then
           (case v of JNull \<Rightarrow> True | JInt n \<Rightarrow> in_int64 n | _ \<Rightarrow> False)
         else if k = foldName ''type'' then
           (case v of JNull \<Rightarrow> True | JString s \<Rightarrow> True | _ \<Rightarrow> False)
         else True)"

definition has_member :: "string \<Rightarrow> (string \<times> json) list \<Rightarrow> bool" where
  "has_member name kvs = list_ex (\<lambda>kv. foldName (fst kv) = foldName name) kvs"

text \<open>A first start: nothing on disk, the clock at 1700000000 seconds.\<close>

definition startup_fresh :: Startup where
  "startup_fresh =
     \<lparr>LoadConfig_result = None, LoadCertificate_result = None,
      UnixNano = 1700000000000000000,
      GenerateCertificate_result = (\<lambda>cn. Some \<lparr>RawSubjectPublicKeyInfo = [0x30, 0x01]\<rparr>),
      getBluetoothAddress_result = [],
      Listen_ok = (\<lambda>p. True)\<rparr>"

text \<open>A desktop and a phone, and the engine of the desktop before it has seen the phone.\<close>

definition laptop_identity :: IdentityBody where
  "laptop_identity =
     \<lparr>IdentityBody.DeviceId = ''laptop'', DeviceName = ''Laptop'', DeviceType = ''desktop'',
      ProtocolVersion = 8, TcpPort = 1716, BluetoothAddress = [],
      IncomingCapabilities = [], OutgoingCapabilities = []\<rparr>"

definition phone_identity :: IdentityBody where
  "phone_identity =
     \<lparr>IdentityBody.DeviceId = ''phone'', DeviceName = ''Pixel'', DeviceType = ''phone'',
      ProtocolVersion = 8, TcpPort = 1716, BluetoothAddress = [],
      IncomingCapabilities = [], OutgoingCapabilities = []\<rparr>"

definition phone_info :: PairedDeviceInfo where
  "phone_info =
     \<lparr>PairedDeviceInfo.Identity = phone_identity, LastIP = ''10.0.0.2'', LastPort = 1716\<rparr>"

definition engine_idle :: Engine where
  "engine_idle = engine_with laptop_identity \<lparr>RawSubjectPublicKeyInfo = [0x30, 0x01]\<rparr> Map.empty"

text \<open>Whether a datagram decodes to a packet whose body is an identity with this device id.\<close>

definition carries_device_id :: "json option \<Rightarrow> string \<Rightarrow> bool" where
  "carries_device_id data deviceId =
     (case data of
        None \<Rightarrow> False
      | Some v \<Rightarrow>
          (case Unmarshal_Packet v of
             Inl err \<Rightarrow> False
           | Inr p \<Rightarrow>
               (case Unmarshal_IdentityBody (Body p) of
                  Inl err \<Rightarrow> False
                | Inr idBody \<Rightarrow> IdentityBody.DeviceId idBody = deviceId)))"

text \<open>An identity datagram as a peer broadcasts it.\<close>

definition identity_datagram :: "string \<Rightarrow> json" where
  "identity_datagram deviceId =
     JObject [(''id'', JInt 1700000000000), (''type'', JString ''kdeconnect.identity''),
              (''body'', JObject [(''deviceId'', JString deviceId),
                                    (''deviceName'', JString ''Pixel''),
                                    (''deviceType'', JString ''phone''),
                                    (''protocolVersion'', JInt 8),
                                    (''tcpPort'', JInt 1716)])]"

text \<open>Effects by kind: an event of a given name, a write of the configuration.\<close>

definition emits :: "string \<Rightarrow> effect \<Rightarrow> bool" where
  "emits name x = (case x of EmitEvent n d \<Rightarrow> n = name | _ \<Rightarrow> False)"

definition persists :: "effect \<Rightarrow> bool" where
  "persists x = (case x of WriteConfig cfg \<Rightarrow> True | _ \<Rightarrow> False)"

text \<open>
  The listener in the words of the specification. The identity that a datagram brings
  is the body of the packet it decodes to, when that packet is an identity packet and
  its body decodes. From the datagrams received, those that bring an identity whose
  device id is not the local one are forwarded, each with its own source address and
  in the order of arrival; the engine adds them one after the other.
\<close>

definition identity_of :: "json option \<Rightarrow> IdentityBody option" where
  "identity_of data =
     (case data of
        None \<Rightarrow> None
      | Some v \<Rightarrow>
          (case Unmarshal_Packet v of
             Inl err \<Rightarrow> None
           | Inr p \<Rightarrow>
               if Type p = ''kdeconnect.identity'' then
                 (case Unmarshal_IdentityBody (Body p) of
                    Inl err \<Rightarrow> None
                  | Inr idBody \<Rightarrow> Some idBody)
               else None))"

fun forwarded ::
  "string \<Rightarrow> (json option \<times> UDPAddr) list \<Rightarrow> (IdentityBody \<times> UDPAddr) list"
where
  "forwarded own [] = []"
| "forwarded own ((data, remoteAddr) # rest) =
     (case identity_of data of
        None \<Rightarrow> forwarded own rest
      | Some idBody \<Rightarrow>
          if IdentityBody.DeviceId idBody = own then forwarded own rest
          else (idBody, remoteAddr) # forwarded own rest)"

fun add_all :: "Engine \<Rightarrow> (IdentityBody \<times> UDPAddr) list \<Rightarrow> step" where
  "add_all e [] = Inr (e, [])"
| "add_all e ((idBody, remoteAddr) # rest) =
     (case addDiscoveredDevice e idBody (Some remoteAddr) of
        Inl pn \<Rightarrow> Inl pn
      | Inr (e1, out) \<Rightarrow>
          (case add_all e1 rest of
             Inl pn \<Rightarrow> Inl pn
           | Inr (e2, out') \<Rightarrow> Inr (e2, out @ out')))"

text \<open>A tablet on the same network, at another address.\<close>

definition tablet_addr :: UDPAddr where
  "tablet_addr = \<lparr>IP = ''10.0.0.7'', Port = 51000\<rparr>"

definition tablet_identity :: IdentityBody where
  "tablet_identity = phone_identity\<lparr>IdentityBody.DeviceId := ''tablet''\<rparr>"

text \<open>The event \<open>device_discovered\<close> for a device of a given id.\<close>

definition discovers :: "string \<Rightarrow> effect \<Rightarrow> bool" where
  "discovers deviceId x =
     (case x of
        EmitEvent n d \<Rightarrow>
          n = ''device_discovered'' \<and>
          (case d of
             DiscoveredDeviceData dev \<Rightarrow>
               IdentityBody.DeviceId (DiscoveredDevice.Identity dev) = deviceId
           | _ \<Rightarrow> False)
      | _ \<Rightarrow> False)"

text \<open>
  The phone as a peer on the network: it accepts the connection, completes the
  handshake with its certificate and sends its identity.
\<close>

definition phone_cert :: Certificate where
  "phone_cert = \<lparr>RawSubjectPublicKeyInfo = [0x30, 0x82]\<rparr>"

definition phone_peer :: Peer where
  "phone_peer =
     \<lparr>accepts = True, takes_plain_identity = True, completes_handshake = True,
      presents = [phone_cert], takes_encrypted_identity = True,
      sends_line = Some (Some (identity_datagram ''phone''))\<rparr>"

definition env_example :: Env where
  "env_example =
     \<lparr>network = (\<lambda>ip port. phone_peer), now_unix = 1700000000, write_fails = (\<lambda>conn. False)\<rparr>"

definition phone_addr :: UDPAddr where
  "phone_addr = \<lparr>IP = ''10.0.0.2'', Port = 1716\<rparr>"

definition engine_discovered :: Engine where
  "engine_discovered =
     engine_idle\<lparr>discoveredDevices :=
       [''phone'' \<mapsto> \<lparr>DiscoveredDevice.Identity = phone_identity, Addr = Some phone_addr\<rparr>]\<rparr>"

text \<open>The engine with the phone discovered and paired at that address.\<close>

definition engine_paired :: Engine where
  "engine_paired = engine_discovered\<lparr>pairedDevices := [''phone'' \<mapsto> phone_info]\<rparr>"

definition outbound_conn :: Connection where
  "outbound_conn =
     NewConnection \<lparr>RemoteHost = ''10.0.0.2'', IsTLS = True, PeerCertificates = [phone_cert]\<rparr>
       ''phone'' phone_identity"

text \<open>
  The disconnect race: the engine dials the phone (connection 0), then the phone
  connects to the engine (connection 1, which replaces connection 0 in
  \<open>activeConns\<close>), then the reader of connection 0 ends.
\<close>

definition inbound_conn :: Connection where
  "inbound_conn =
     NewConnection \<lparr>RemoteHost = ''10.0.0.2'', IsTLS = True, PeerCertificates = [phone_cert]\<rparr>
       ''phone'' phone_identity"

definition race_outbound ::
  "panic + (error + conn_ptr) \<times> Engine \<times> effect list"
where
  "race_outbound = getOrConnect env_example engine_discovered ''phone''"

definition race_inbound :: step where
  "race_inbound =
     handleNewConnection
       (snd (new_Connection (fst (snd (projr race_outbound))) inbound_conn))
       (fst (new_Connection (fst (snd (projr race_outbound))) inbound_conn))"

definition race_disconnect :: step where
  "race_disconnect = disconnect (fst (projr race_inbound)) 0"

text \<open>
  Pairing without a pin: the engine asks the phone to pair over connection 0, on which
  the phone presented \<open>phone_cert\<close>, and the phone agrees. Later a connection arrives
  that announces the device id of the phone and presents another certificate.
\<close>

definition pair_reply :: Packet where
  "pair_reply =
     \<lparr>Id' = 1, Type = ''kdeconnect.pair'',
      Body = Some (JObject [(''pair'', JBool True), (''timestamp'', JInt 1700000000)])\<rparr>"

definition pin_requested :: "panic + error option \<times> Engine \<times> effect list" where
  "pin_requested = Engine_Pair env_example engine_discovered ''phone''"

definition pin_paired :: step where
  "pin_paired = handlePacket env_example (fst (snd (projr pin_requested))) 0 pair_reply"

definition other_cert :: Certificate where
  "other_cert = \<lparr>RawSubjectPublicKeyInfo = [0x30, 0x99]\<rparr>"

definition other_conn :: Connection where
  "other_conn =
     NewConnection \<lparr>RemoteHost = ''10.0.0.2'', IsTLS = True, PeerCertificates = [other_cert]\<rparr>
       ''phone'' phone_identity"

definition pin_reconnected :: step where
  "pin_reconnected =
     handleNewConnection
       (snd (new_Connection (fst (projr pin_paired)) other_conn))
       (fst (new_Connection (fst (projr pin_paired)) other_conn))"

text \<open>On the connection registered last, a pair packet arrives for the phone, which is paired.\<close>

definition pin_pair_again :: step where
  "pin_pair_again = handlePacket env_example (fst (projr pin_reconnected)) 1 pair_reply"

section \<open>Properties of the verification key\<close>

lemma bytes_Compare_neg_iff: "bytes_Compare a b < 0 \<longleftrightarrow> a < b"
proof (induction a b rule: bytes_Compare.induct)
  case (4 x xs y ys)
  have eq: "x = y" if "\<not> unat x < unat y" "\<not> unat y < unat x"
    using that by (simp add: word_unat_eq_iff)
  show ?case
  proof (cases "unat x < unat y")
    case True
    then show ?thesis by (simp add: word_less_nat_alt)
  next
    case False
    show ?thesis
    proof (cases "unat y < unat x")
      case True
      with False show ?thesis by (simp add: word_less_nat_alt word_unat_eq_iff)
    next
      case ge: False
      with False eq have "x = y" by blast
      with False ge 4 show ?thesis by simp
    qed
  qed
qed simp_all

lemma length_Sum256: "length (Sum256 m) = 32"
  by (simp add: Sum256_def Let_def word_be_bytes_def)

lemma length_Sprintf_x_bytes: "length (Sprintf_x_bytes h) = 2 * length h"
  by (induction h) (simp_all add: Sprintf_x_bytes_def hex_byte_def)

text \<open>
  C1. For any two certificates with SubjectPublicKeyInfo blobs \<open>A\<close> (local) and \<open>B\<close>
  (remote) and any timestamp \<open>t\<close>, \<open>GetVerificationKey\<close> returns the string the
  specification describes: \<open>B || A\<close> if \<open>A < B\<close> in the lexicographic order of unsigned
  bytes, else \<open>A || B\<close>; the decimal timestamp appended; SHA-256; lowercase hex; the
  first 8 characters, uppercased. The result has exactly 8 characters.
\<close>

theorem C1_GetVerificationKey_refines_spec:
  "GetVerificationKey certA certB t =
     vk_spec (RawSubjectPublicKeyInfo certA) (RawSubjectPublicKeyInfo certB) t
   \<and> length (GetVerificationKey certA certB t) = 8"
  by (simp add: GetVerificationKey_def vk_spec_def bytes_Compare_neg_iff Let_def
      length_Sprintf_x_bytes length_Sum256 ToUpper_def)

text \<open>
  C4. The verification key is symmetric in its two certificates:
  \<open>vk(A, B, t) = vk(B, A, t)\<close> for all blobs and every timestamp.
\<close>

theorem C4_GetVerificationKey_symmetric:
  "GetVerificationKey certA certB t = GetVerificationKey certB certA t"
proof -
  let ?A = "RawSubjectPublicKeyInfo certA" and ?B = "RawSubjectPublicKeyInfo certB"
  consider "?A < ?B" | "?A = ?B" | "?B < ?A" by (rule linorder_cases)
  then show ?thesis
  proof cases
    case 1
    then have "\<not> ?B < ?A" by simp
    with 1 show ?thesis by (simp add: GetVerificationKey_def bytes_Compare_neg_iff)
  next
    case 2
    then show ?thesis by (simp add: GetVerificationKey_def)
  next
    case 3
    then have "\<not> ?A < ?B" by simp
    with 3 show ?thesis by (simp add: GetVerificationKey_def bytes_Compare_neg_iff)
  qed
qed

section \<open>The device id of a fresh engine\<close>

lemma digit_char_hex:
  assumes "d < 16"
  shows "is_hex (digit_char d)"
proof -
  have "list_all (\<lambda>d. is_hex (digit_char d)) [0..<16]"
    by code_simp
  with assms show ?thesis by (simp add: list_all_iff)
qed

lemma hexadecimal_hex: "0 \<le> n \<Longrightarrow> list_all is_hex (hexadecimal n)"
proof (induction n rule: hexadecimal.induct)
  case (1 n)
  show ?case
  proof (cases "n < 16")
    case True
    with 1(2) have "nat n < 16" by simp
    with True show ?thesis by (subst hexadecimal.simps) (simp add: digit_char_hex)
  next
    case False
    then have "0 \<le> n div 16" by simp
    with False 1 have ih: "list_all is_hex (hexadecimal (n div 16))" by simp
    have "nat (n mod 16) < 16" by simp
    with False ih show ?thesis by (subst hexadecimal.simps) (simp add: digit_char_hex)
  qed
qed

lemma hexadecimal_length: "0 < k \<Longrightarrow> n < 16 ^ k \<Longrightarrow> length (hexadecimal n) \<le> k"
proof (induction n arbitrary: k rule: hexadecimal.induct)
  case (1 n)
  show ?case
  proof (cases "n < 16")
    case True
    with 1(2) show ?thesis by (subst hexadecimal.simps) simp
  next
    case False
    with 1(3) have "k \<noteq> 1" by auto
    with 1(2) obtain j where j: "k = Suc j" "0 < j" by (cases k) auto
    with 1(3) have "n div 16 < 16 ^ j" by (simp add: div_less_iff_less_mult mult.commute)
    with 1(1) [OF False j(2)] have "length (hexadecimal (n div 16)) \<le> j" by simp
    with False j show ?thesis by (subst hexadecimal.simps) simp
  qed
qed

lemma magnitude_bound: "(if sint (x::64 word) < 0 then - sint x else sint x) < 16 ^ 16"
proof -
  have "- (2 ^ 63) \<le> sint x" "sint x < 2 ^ 63"
    using sint_ge [of x] sint_lt [of x] by simp_all
  then show ?thesis by simp
qed

lemma length_hexadecimal_magnitude:
  "length (hexadecimal (if sint (x::64 word) < 0 then - sint x else sint x)) \<le> 16"
  by (rule hexadecimal_length [OF _ magnitude_bound]) simp

lemma length_Sprintf_030x: "length (Sprintf_030x x) = 30"
proof (cases "sint x < 0")
  case True
  with length_hexadecimal_magnitude [of x] have "length (hexadecimal (- sint x)) \<le> 16"
    by simp
  with True show ?thesis by (simp add: Sprintf_030x_def Let_def)
next
  case False
  with length_hexadecimal_magnitude [of x] have "length (hexadecimal (sint x)) \<le> 16"
    by simp
  with False show ?thesis by (simp add: Sprintf_030x_def Let_def)
qed

lemma Sprintf_030x_hex:
  assumes nn: "0 \<le> sint x"
  shows "list_all is_hex (Sprintf_030x x)"
proof -
  have z: "is_hex CHR ''0''" by (simp add: is_hex_def)
  from nn have "Sprintf_030x x =
      replicate (30 - length (hexadecimal (sint x))) CHR ''0'' @ hexadecimal (sint x)"
    using length_hexadecimal_magnitude [of x] by (auto simp: Sprintf_030x_def Let_def)
  with z hexadecimal_hex [OF nn] show ?thesis
    by (auto simp: list_all_iff)
qed

lemma NewEngine_fresh_deviceId:
  assumes "LoadConfig_result st = None" and "NewEngine deviceName st = Inr (e, out)"
  shows "IdentityBody.DeviceId (Engine.Identity e) = fresh_deviceId (UnixNano st)"
  using assms
  by (auto simp: NewEngine_def Let_def engine_with_def split: option.splits)

lemma NewEngine_startup_fresh_returns: "\<not> isl (NewEngine ''laptop'' startup_fresh)"
  by (simp add: NewEngine_def startup_fresh_def Let_def)

lemma NewEngine_startup_fresh_deviceId:
  "IdentityBody.DeviceId (Engine.Identity (fst (projr (NewEngine ''laptop'' startup_fresh))))
     = fresh_deviceId 1700000000000000000"
  by (simp add: NewEngine_def startup_fresh_def Let_def engine_with_def)

lemma fresh_deviceId_example:
  "fresh_deviceId 1700000000000000000 = ''fyne-0000000000000017979cfe362a0000''"
  by code_simp

text \<open>
  C6, as stated, fails: at the first start with the clock at 1700000000 seconds the
  device id is \<open>fyne-0000000000000017979cfe362a0000\<close>, which has 35 characters, not 36.
\<close>

theorem C6_counterexample:
  "\<not> isl (NewEngine ''laptop'' startup_fresh) \<and>
   IdentityBody.DeviceId (Engine.Identity (fst (projr (NewEngine ''laptop'' startup_fresh))))
     = ''fyne-0000000000000017979cfe362a0000'' \<and>
   length (IdentityBody.DeviceId
             (Engine.Identity (fst (projr (NewEngine ''laptop'' startup_fresh))))) \<noteq> 36"
  by (simp add: NewEngine_startup_fresh_returns NewEngine_startup_fresh_deviceId
      fresh_deviceId_example)

text \<open>
  C6, amended. When the engine is created without an existing configuration, the
  device id is \<open>fyne-\<close> followed by the 30 characters of the clock value printed with
  \<open>%030x\<close>, so it has 35 characters in all; for a clock value that is not negative the
  30 characters are lowercase hexadecimal digits.
\<close>

theorem C6_fresh_deviceId_form:
  assumes "LoadConfig_result st = None" and "NewEngine deviceName st = Inr (e, out)"
  shows "IdentityBody.DeviceId (Engine.Identity e) = ''fyne-'' @ Sprintf_030x (UnixNano st)
         \<and> length (IdentityBody.DeviceId (Engine.Identity e)) = 35
         \<and> (0 \<le> sint (UnixNano st) \<longrightarrow>
              length (drop 5 (IdentityBody.DeviceId (Engine.Identity e))) = 30 \<and>
              list_all is_hex (drop 5 (IdentityBody.DeviceId (Engine.Identity e))))"
  using NewEngine_fresh_deviceId [OF assms] length_Sprintf_030x [of "UnixNano st"]
    Sprintf_030x_hex [of "UnixNano st"]
  by (simp add: fresh_deviceId_def)

theorem C6_fresh_deviceId_form_witness:
  "LoadConfig_result startup_fresh = None \<and>
   \<not> isl (NewEngine ''laptop'' startup_fresh) \<and>
   0 \<le> sint (UnixNano startup_fresh) \<and>
   length (IdentityBody.DeviceId
             (Engine.Identity (fst (projr (NewEngine ''laptop'' startup_fresh))))) = 35 \<and>
   list_all is_hex
     (drop 5 (IdentityBody.DeviceId
                (Engine.Identity (fst (projr (NewEngine ''laptop'' startup_fresh))))))"
proof -
  let ?r = "NewEngine ''laptop'' startup_fresh"
  have none: "LoadConfig_result startup_fresh = None"
    by (simp add: startup_fresh_def)
  have ret: "?r = Inr (fst (projr ?r), snd (projr ?r))"
    using NewEngine_startup_fresh_returns by (cases ?r) simp_all
  have nn: "0 \<le> sint (UnixNano startup_fresh)"
    by (simp add: startup_fresh_def)
  from C6_fresh_deviceId_form [OF none ret] nn none NewEngine_startup_fresh_returns
  show ?thesis by blast
qed

section \<open>The packet decoder\<close>

lemma Packet_member_accepts:
  "(\<exists>p'. Packet_member p kv = Inr p') \<longleftrightarrow> member_accepted kv"
  by (auto simp: Packet_member_def member_accepted_def Let_def store_int64_def store_string_def
      split: json.splits sum.splits)

lemma store_members_Packet_accepts:
  "(\<exists>p'. store_members Packet_member p kvs = Inr p') \<longleftrightarrow> list_all member_accepted kvs"
proof (induction kvs arbitrary: p)
  case Nil
  show ?case by simp
next
  case (Cons kv kvs)
  show ?case
  proof (cases "Packet_member p kv")
    case (Inl err)
    with Packet_member_accepts [of p kv] show ?thesis by simp
  next
    case (Inr q)
    with Packet_member_accepts [of p kv] Cons [of q] show ?thesis by simp
  qed
qed

lemma Packet_member_keeps:
  assumes "Packet_member p kv = Inr q"
  shows "foldName (fst kv) \<noteq> foldName ''type'' \<Longrightarrow> Type q = Type p"
    and "foldName (fst kv) \<noteq> foldName ''id'' \<Longrightarrow> Id' q = Id' p"
    and "foldName (fst kv) \<noteq> foldName ''body'' \<Longrightarrow> Body q = Body p"
  using assms
  by (auto simp: Packet_member_def Let_def split: if_splits sum.splits)

lemma store_members_Packet_keeps_Type:
  "store_members Packet_member p kvs = Inr q \<Longrightarrow> \<not> has_member ''type'' kvs \<Longrightarrow> Type q = Type p"
proof (induction kvs arbitrary: p)
  case Nil
  then show ?case by simp
next
  case (Cons kv kvs)
  from Cons(2) obtain r where r: "Packet_member p kv = Inr r"
      "store_members Packet_member r kvs = Inr q"
    by (auto split: sum.splits)
  with Cons(3) Cons(1) [of r] Packet_member_keeps(1) [OF r(1)] show ?case
    by (simp add: has_member_def)
qed

lemma store_members_Packet_keeps_Id:
  "store_members Packet_member p kvs = Inr q \<Longrightarrow> \<not> has_member ''id'' kvs \<Longrightarrow>
     Id' q = Id' p"
proof (induction kvs arbitrary: p)
  case Nil
  then show ?case by simp
next
  case (Cons kv kvs)
  from Cons(2) obtain r where r: "Packet_member p kv = Inr r"
      "store_members Packet_member r kvs = Inr q"
    by (auto split: sum.splits)
  with Cons(3) Cons(1) [of r] Packet_member_keeps(2) [OF r(1)] show ?case
    by (simp add: has_member_def)
qed

lemma store_members_Packet_keeps_Body:
  "store_members Packet_member p kvs = Inr q \<Longrightarrow> \<not> has_member ''body'' kvs \<Longrightarrow> Body q = Body p"
proof (induction kvs arbitrary: p)
  case Nil
  then show ?case by simp
next
  case (Cons kv kvs)
  from Cons(2) obtain r where r: "Packet_member p kv = Inr r"
      "store_members Packet_member r kvs = Inr q"
    by (auto split: sum.splits)
  with Cons(3) Cons(1) [of r] Packet_member_keeps(3) [OF r(1)] show ?case
    by (simp add: has_member_def)
qed

text \<open>
  The decoder matches the names of the members without regard to case: \<^verbatim>\<open>{"Type": 5}\<close>
  and \<^verbatim>\<open>{"ID": "x"}\<close> are rejected, as a \<open>type\<close> that is no string and an \<open>id\<close>
  that is no integer, and \<^verbatim>\<open>{"TYPE": "x"}\<close> sets the type of the packet.
\<close>

lemma foldName_examples:
  "foldName ''Type'' = foldName ''type''"
  "foldName ''TYPE'' = foldName ''type''"
  "foldName ''ID'' = foldName ''id''"
  "foldName ''type'' \<noteq> foldName ''id''"
  by code_simp+

lemma Unmarshal_Packet_folds_names:
  "Unmarshal_Packet (JObject [(''Type'', JInt 5)]) = Inl UnmarshalTypeError"
  "Unmarshal_Packet (JObject [(''ID'', JString ''x'')]) = Inl UnmarshalTypeError"
  "Unmarshal_Packet (JObject [(''TYPE'', JString ''x'')])
     = Inr \<lparr>Id' = 0, Type = ''x'', Body = None\<rparr>"
  "\<not> member_accepted (''Type'', JInt 5)"
  "\<not> member_accepted (''ID'', JString ''x'')"
  "has_member ''type'' [(''TYPE'', JString ''x'')]"
  using foldName_examples
  by (simp_all add: Unmarshal_Packet_def unmarshal_struct_def Packet_member_def Packet_zero_def
      store_int64_def store_string_def in_int64_def member_accepted_def has_member_def Let_def
      del: foldName.simps)

text \<open>
  C7, as stated, fails: the object \<^verbatim>\<open>{"id": 1, "body": {}}\<close> has no \<open>type\<close>, and
  the decoder returns a packet for it, with the empty type.
\<close>

theorem C7_counterexample:
  "Unmarshal_Packet (JObject [(''id'', JInt 1), (''body'', JObject [])])
     = Inr \<lparr>Id' = 1, Type = [], Body = Some (JObject [])\<rparr>"
  by (simp add: Unmarshal_Packet_def unmarshal_struct_def Packet_member_def Packet_zero_def
      store_int64_def in_int64_def upper_char_def)

text \<open>
  C7, amended. The names of the members are matched without regard to case, as the
  library folds them: \<open>type\<close>, \<open>Type\<close> and \<open>TYPE\<close> all name the \<open>type\<close> member,
  and so for \<open>id\<close> and \<open>body\<close>. For a JSON object the decoder requires none of the
  three members: it returns a packet exactly when every \<open>id\<close> member is
  \<^verbatim>\<open>null\<close> or an integer of 64 bits and every \<open>type\<close> member is \<^verbatim>\<open>null\<close> or a
  string; the body may be any JSON value. In the packet, \<open>type\<close> is empty when the
  object has no \<open>type\<close> member, \<open>id\<close> is 0 when it has no \<open>id\<close> member and the
  body is absent when it has no \<open>body\<close> member. Of the other JSON values,
  \<^verbatim>\<open>null\<close> decodes to the zero packet and the rest are rejected, with the
  \<^verbatim>\<open>UnmarshalTypeError\<close> of the library.
\<close>

theorem C7_decoder_requires_no_member:
  "((\<exists>p. Unmarshal_Packet (JObject kvs) = Inr p) \<longleftrightarrow> list_all member_accepted kvs)
   \<and> (\<forall>p. Unmarshal_Packet (JObject kvs) = Inr p \<longrightarrow>
          (\<not> has_member ''type'' kvs \<longrightarrow> Type p = []) \<and>
          (\<not> has_member ''id'' kvs \<longrightarrow> Id' p = 0) \<and>
          (\<not> has_member ''body'' kvs \<longrightarrow> Body p = None))
   \<and> Unmarshal_Packet JNull = Inr Packet_zero
   \<and> Unmarshal_Packet (JBool b) = Inl UnmarshalTypeError
   \<and> Unmarshal_Packet (JInt n) = Inl UnmarshalTypeError
   \<and> Unmarshal_Packet (JFrac x) = Inl UnmarshalTypeError
   \<and> Unmarshal_Packet (JString s) = Inl UnmarshalTypeError
   \<and> Unmarshal_Packet (JArray vs) = Inl UnmarshalTypeError"
  using store_members_Packet_accepts [of Packet_zero kvs]
    store_members_Packet_keeps_Type [of Packet_zero kvs]
    store_members_Packet_keeps_Id [of Packet_zero kvs]
    store_members_Packet_keeps_Body [of Packet_zero kvs]
  by (simp add: Unmarshal_Packet_def unmarshal_struct_def Packet_zero_def)

theorem C7_decoder_requires_no_member_witness:
  "list_all member_accepted [(''body'', JString ''x'')] \<and>
   \<not> has_member ''type'' [(''body'', JString ''x'')] \<and>
   \<not> has_member ''id'' [(''body'', JString ''x'')] \<and>
   (\<exists>p. Unmarshal_Packet (JObject [(''body'', JString ''x'')]) = Inr p \<and>
        Type p = [] \<and> Id' p = 0)"
proof -
  let ?kvs = "[(''body'', JString ''x'')]"
  have acc: "list_all member_accepted ?kvs"
    by (simp add: member_accepted_def upper_char_def)
  have no: "\<not> has_member ''type'' ?kvs" "\<not> has_member ''id'' ?kvs"
    by (simp_all add: has_member_def upper_char_def)
  from C7_decoder_requires_no_member [of ?kvs] acc
  obtain p where p: "Unmarshal_Packet (JObject ?kvs) = Inr p" by blast
  with C7_decoder_requires_no_member [of ?kvs] no
  have "Type p = [] \<and> Id' p = 0" by blast
  with acc no p show ?thesis by blast
qed

section \<open>The event emitter\<close>

lemma listeners_of_On:
  "listeners_of (On e ev l) event =
     (if event = ev then listeners_of e ev @ [l] else listeners_of e event)"
  by (simp add: On_def listeners_of_def)

lemma listeners_of_emitter_calls:
  "l \<in> set (listeners_of e event) \<Longrightarrow> l \<in> set (listeners_of (emitter_calls e cs) event)"
proof (induction cs arbitrary: e)
  case Nil
  then show ?case by simp
next
  case (Cons c cs)
  show ?case
  proof (cases c)
    case (CallOn ev l')
    from Cons(2) have "l \<in> set (listeners_of (On e ev l') event)"
      by (auto simp: listeners_of_On)
    with CallOn Cons(1) show ?thesis by simp
  next
    case (CallOff ev l')
    with Cons show ?thesis by (simp add: Off_def)
  next
    case (CallOnce ev f)
    from Cons(2) have "l \<in> set (listeners_of (Once e ev f) event)"
      by (auto simp: Once_def listeners_of_On)
    with CallOnce Cons(1) show ?thesis by simp
  qed
qed

lemma Emit_listeners_of: "Emit e event d = map (\<lambda>l. (l, d)) (listeners_of e event)"
  by (simp add: Emit_def listeners_of_def split: option.splits)

text \<open>
  C10. \<open>Off\<close> leaves the emitter as it is, for every event and listener. So a listener
  registered with \<open>On\<close> is called by every later \<open>Emit\<close> of the event, whatever calls of
  \<open>On\<close>, \<open>Off\<close> and \<open>Once\<close> come in between, \<open>Off\<close> for this listener included.
\<close>

theorem C10_Off_is_noop:
  "Off e event l = e \<and>
   (l, d) \<in> set (Emit (emitter_calls (Off (On e event l) event l) cs) event d)"
proof -
  have "l \<in> set (listeners_of (On e event l) event)"
    by (simp add: listeners_of_On)
  then have "l \<in> set (listeners_of (emitter_calls (On e event l) cs) event)"
    by (rule listeners_of_emitter_calls)
  then show ?thesis by (simp add: Off_def Emit_listeners_of)
qed

section \<open>The examples, evaluated\<close>

text \<open>
  The results of the decoder and of the engine on the examples, each step computed
  from the result of the step before.
\<close>

lemmas decode_defs =
  Unmarshal_Packet_def unmarshal_struct_def Packet_member_def Packet_zero_def
  store_int64_def store_string_def store_int_def store_bool_def in_int64_def upper_char_def
  Unmarshal_IdentityBody_def Unmarshal_PairBody_def Unmarshal_Body_def
  IdentityBody_member_def IdentityBody_zero_def PairBody_member_def PairBody_zero_def into_def

lemmas example_defs =
  engine_paired_def engine_discovered_def engine_idle_def engine_with_def
  phone_addr_def phone_identity_def phone_info_def laptop_identity_def

lemma identity_datagram_packet:
  "Unmarshal_Packet (identity_datagram deviceId) =
     Inr \<lparr>Id' = 1700000000000, Type = ''kdeconnect.identity'',
          Body = Some (JObject [(''deviceId'', JString deviceId),
                                  (''deviceName'', JString ''Pixel''),
                                  (''deviceType'', JString ''phone''),
                                  (''protocolVersion'', JInt 8),
                                  (''tcpPort'', JInt 1716)])\<rparr>"
  by (simp add: identity_datagram_def decode_defs)

lemma identity_datagram_body:
  "Unmarshal_IdentityBody
     (Some (JObject [(''deviceId'', JString deviceId),
                      (''deviceName'', JString ''Pixel''),
                      (''deviceType'', JString ''phone''),
                      (''protocolVersion'', JInt 8),
                      (''tcpPort'', JInt 1716)]))
     = Inr (phone_identity\<lparr>IdentityBody.DeviceId := deviceId\<rparr>)"
  by (simp add: decode_defs phone_identity_def)

lemma identity_of_None: "identity_of None = None"
  by (simp add: identity_of_def)

lemma identity_of_datagram:
  "identity_of (Some (identity_datagram deviceId))
     = Some (phone_identity\<lparr>IdentityBody.DeviceId := deviceId\<rparr>)"
  by (simp add: identity_of_def identity_datagram_packet identity_datagram_body)

lemma forwarded_example:
  "forwarded ''laptop''
     [(Some (identity_datagram ''phone''), phone_addr),
      (Some (identity_datagram ''laptop''), phone_addr),
      (None, phone_addr),
      (Some (identity_datagram ''tablet''), tablet_addr)]
   = [(phone_identity, phone_addr), (tablet_identity, tablet_addr)]"
  by (simp add: identity_of_datagram identity_of_None tablet_identity_def phone_identity_def)

lemma add_all_example:
  "\<exists>e' out.
     add_all engine_idle [(phone_identity, phone_addr), (tablet_identity, tablet_addr)]
       = Inr (e', out) \<and>
     discoveredDevices e' ''phone''
       = Some \<lparr>DiscoveredDevice.Identity = phone_identity, Addr = Some phone_addr\<rparr> \<and>
     discoveredDevices e' ''tablet''
       = Some \<lparr>DiscoveredDevice.Identity = tablet_identity, Addr = Some tablet_addr\<rparr>"
  by (simp add: addDiscoveredDevice_def Let_def example_defs tablet_identity_def)

lemma Connect_phone:
  "Connect (network env_example) ip port cert identity =
     Inr (NewConnection \<lparr>RemoteHost = ip, IsTLS = True, PeerCertificates = [phone_cert]\<rparr>
            ''phone'' phone_identity)"
  by (simp add: Connect_def env_example_def phone_peer_def VerifyPeerCertificate_def
      identity_datagram_packet identity_datagram_body phone_identity_def)

lemma env_example_fields:
  "now_unix env_example = 1700000000" "write_fails env_example conn = False"
  by (simp_all add: env_example_def)

lemma race_outbound_result:
  "race_outbound =
     Inr (Inr 0,
          engine_discovered\<lparr>activeConns := [''phone'' \<mapsto> 0],
            conns := [0 \<mapsto> outbound_conn\<lparr>OnPacket := Some (CallHandlePacket 0),
                              OnDisconnect := Some (DeleteAlways ''phone'')\<rparr>],
            next_conn := 1\<rparr>,
          [GoStartLoop 0])"
  by (simp add: race_outbound_def getOrConnect_def dial_and_register_def Connect_phone
      new_Connection_def example_defs outbound_conn_def)

lemma race_inbound_result:
  "race_inbound =
     Inr (engine_discovered\<lparr>activeConns := [''phone'' \<mapsto> 1],
            conns := [0 \<mapsto> outbound_conn\<lparr>OnPacket := Some (CallHandlePacket 0),
                              OnDisconnect := Some (DeleteAlways ''phone'')\<rparr>,
                      1 \<mapsto> inbound_conn\<lparr>OnPacket := Some (CallHandlePacket 1),
                              OnDisconnect := Some (DeleteIfSame ''phone'' 1)\<rparr>],
            next_conn := 2\<rparr>,
          [EmitEvent ''device_discovered'' (DiscoveredDeviceData
             \<lparr>DiscoveredDevice.Identity = phone_identity, Addr = Some phone_addr\<rparr>)])"
  by (simp add: race_inbound_def race_outbound_result handleNewConnection_def new_Connection_def
      addDiscoveredDevice_def ResolveUDPAddr_def inbound_conn_def NewConnection_def
      example_defs Let_def)

lemma race_disconnect_result:
  "race_disconnect =
     Inr (engine_discovered\<lparr>activeConns := Map.empty,
            conns := [0 \<mapsto> outbound_conn\<lparr>OnPacket := Some (CallHandlePacket 0),
                              OnDisconnect := Some (DeleteAlways ''phone'')\<rparr>,
                      1 \<mapsto> inbound_conn\<lparr>OnPacket := Some (CallHandlePacket 1),
                              OnDisconnect := Some (DeleteIfSame ''phone'' 1)\<rparr>],
            next_conn := 2\<rparr>, [])"
  by (simp add: race_disconnect_def race_inbound_result disconnect_def outbound_conn_def
      NewConnection_def)

lemma pin_requested_result:
  "pin_requested =
     Inr (None,
          engine_discovered\<lparr>activeConns := [''phone'' \<mapsto> 0],
            pendingPairing := [''phone'' \<mapsto> True],
            conns := [0 \<mapsto> outbound_conn\<lparr>OnPacket := Some (CallHandlePacket 0),
                              OnDisconnect := Some (DeleteAlways ''phone'')\<rparr>],
            next_conn := 1\<rparr>,
          [GoStartLoop 0,
           WritePacket 0 ''kdeconnect.pair''
             (PairBodyOf \<lparr>Pair' = True, Timestamp = 1700000000\<rparr>)])"
  by (simp add: pin_requested_def Engine_Pair_def SendPacket_def Connection_SendPacket_def
      getOrConnect_def dial_and_register_def Connect_phone
      new_Connection_def example_defs outbound_conn_def env_example_fields)

lemma pair_reply_body:
  "Unmarshal_PairBody (Body pair_reply) = Inr \<lparr>Pair' = True, Timestamp = 1700000000\<rparr>"
  by (simp add: pair_reply_def decode_defs)

lemma pin_paired_result:
  "pin_paired =
     Inr (engine_paired\<lparr>activeConns := [''phone'' \<mapsto> 0],
            conns := [0 \<mapsto> outbound_conn\<lparr>OnPacket := Some (CallHandlePacket 0),
                              OnDisconnect := Some (DeleteAlways ''phone'')\<rparr>],
            next_conn := 1\<rparr>,
          [SaveConfig engine_paired, EmitEvent ''pairing_changed'' (StringData ''phone'')])"
  by (simp add: pin_paired_def pin_requested_result handlePacket_def pair_reply_body
      MarkAsPaired_def IsDiscovered_def SaveConfig_def outbound_conn_def NewConnection_def
      example_defs Let_def)
     (simp add: pair_reply_def)

lemma pin_reconnected_result:
  "pin_reconnected =
     Inr (engine_paired\<lparr>activeConns := [''phone'' \<mapsto> 1],
            conns := [0 \<mapsto> outbound_conn\<lparr>OnPacket := Some (CallHandlePacket 0),
                              OnDisconnect := Some (DeleteAlways ''phone'')\<rparr>,
                      1 \<mapsto> other_conn\<lparr>OnPacket := Some (CallHandlePacket 1),
                              OnDisconnect := Some (DeleteIfSame ''phone'' 1)\<rparr>],
            next_conn := 2\<rparr>,
          [EmitEvent ''device_discovered'' (DiscoveredDeviceData
             \<lparr>DiscoveredDevice.Identity = phone_identity, Addr = Some phone_addr\<rparr>)])"
  by (simp add: pin_reconnected_def pin_paired_result handleNewConnection_def new_Connection_def
      addDiscoveredDevice_def ResolveUDPAddr_def other_conn_def NewConnection_def
      example_defs Let_def)

section \<open>Discovery and the paired record\<close>

text \<open>
  C5, as stated, fails: the phone is paired with last address 10.0.0.2 port 1716; a
  discovery event for it from 10.0.0.2 port 40000, with the same name, changes the
  port of the observed pair, but the paired record stays as it was and nothing is
  persisted.
\<close>

theorem C5_counterexample:
  "pairedDevices engine_paired ''phone'' = Some phone_info \<and>
   (LastIP phone_info, LastPort phone_info) \<noteq> (''10.0.0.2'', 40000) \<and>
   \<not> isl (addDiscoveredDevice engine_paired phone_identity
             (Some \<lparr>IP = ''10.0.0.2'', Port = 40000\<rparr>)) \<and>
   pairedDevices
     (fst (projr (addDiscoveredDevice engine_paired phone_identity
                    (Some \<lparr>IP = ''10.0.0.2'', Port = 40000\<rparr>)))) ''phone''
     = Some phone_info \<and>
   \<not> list_ex persists
     (snd (projr (addDiscoveredDevice engine_paired phone_identity
                    (Some \<lparr>IP = ''10.0.0.2'', Port = 40000\<rparr>))))"
  by (simp add: addDiscoveredDevice_def example_defs Let_def persists_def)

text \<open>
  C5, amended. On a discovery event (with a source address) for a paired device id:
  if the observed IP differs from \<open>last_ip\<close> or the device name changed, the paired
  record becomes the observed identity, IP and port, and the configuration with that
  record is persisted, once; otherwise (also when only the port differs) the paired
  map is left as it was and nothing is persisted. The records of other devices are
  never touched.
\<close>

theorem C5_paired_record_follows_ip_and_name:
  assumes "pairedDevices e (IdentityBody.DeviceId identity) = Some info"
  shows "\<exists>e' out. addDiscoveredDevice e identity (Some a) = Inr (e', out) \<and>
     (if LastIP info \<noteq> IP a
         \<or> DeviceName (PairedDeviceInfo.Identity info) \<noteq> DeviceName identity
      then pairedDevices e' (IdentityBody.DeviceId identity)
             = Some \<lparr>PairedDeviceInfo.Identity = identity, LastIP = IP a,
                     LastPort = UDPAddr.Port a\<rparr>
           \<and> filter persists out = [SaveConfig e']
      else pairedDevices e' = pairedDevices e \<and> filter persists out = []) \<and>
     (\<forall>k. k \<noteq> IdentityBody.DeviceId identity \<longrightarrow> pairedDevices e' k = pairedDevices e k)"
  using assms
  by (simp add: addDiscoveredDevice_def Let_def persists_def SaveConfig_def)

theorem C5_paired_record_follows_ip_and_name_witness:
  "pairedDevices engine_paired (IdentityBody.DeviceId phone_identity) = Some phone_info \<and>
   LastIP phone_info \<noteq> IP \<lparr>IP = ''10.0.0.3'', Port = 1716\<rparr> \<and>
   (\<exists>e' out.
      addDiscoveredDevice engine_paired phone_identity (Some \<lparr>IP = ''10.0.0.3'', Port = 1716\<rparr>)
        = Inr (e', out) \<and>
      pairedDevices e' ''phone''
        = Some \<lparr>PairedDeviceInfo.Identity = phone_identity, LastIP = ''10.0.0.3'',
                LastPort = 1716\<rparr> \<and>
      filter persists out = [SaveConfig e'])"
proof -
  have paired: "pairedDevices engine_paired (IdentityBody.DeviceId phone_identity) = Some phone_info"
    by (simp add: example_defs)
  have moved: "LastIP phone_info \<noteq> IP \<lparr>IP = ''10.0.0.3'', Port = 1716\<rparr>"
    by (simp add: phone_info_def)
  have id: "IdentityBody.DeviceId phone_identity = ''phone''"
    by (simp add: phone_identity_def)
  from C5_paired_record_follows_ip_and_name [OF paired, of "\<lparr>IP = ''10.0.0.3'', Port = 1716\<rparr>"]
    moved
  obtain e' out where
    "addDiscoveredDevice engine_paired phone_identity (Some \<lparr>IP = ''10.0.0.3'', Port = 1716\<rparr>)
       = Inr (e', out)"
    "pairedDevices e' (IdentityBody.DeviceId phone_identity)
       = Some \<lparr>PairedDeviceInfo.Identity = phone_identity, LastIP = ''10.0.0.3'',
               LastPort = 1716\<rparr>"
    "filter persists out = [SaveConfig e']"
    by auto
  with paired moved id show ?thesis by auto
qed

section \<open>Unpair and pair again\<close>

lemma addDiscoveredDevice_dom_paired:
  "addDiscoveredDevice e identity addr = Inr (e', out) \<Longrightarrow>
     dom (pairedDevices e') = dom (pairedDevices e)"
  by (auto simp: addDiscoveredDevice_def Let_def split: option.splits if_splits)

lemma MarkAsPaired_dom_paired:
  "MarkAsPaired e deviceId = Inr (e', out) \<Longrightarrow> pairedDevices e deviceId \<noteq> None \<Longrightarrow>
     dom (pairedDevices e') = dom (pairedDevices e)"
  by (auto simp: MarkAsPaired_def Let_def split: option.splits if_splits)

text \<open>
  A pair packet that arrives on a connection of a device that is already paired leaves
  the set of paired device ids as it was, whether a pairing was pending or not.
\<close>

lemma handlePacket_pair_dom_paired:
  assumes "handlePacket env e conn p = Inr (e', out)"
    and "conns e conn = Some c"
    and "pairedDevices e (Connection.DeviceId c) \<noteq> None"
    and "Type p = ''kdeconnect.pair''"
    and "Unmarshal_PairBody (Body p) = Inr pair"
    and "Pair' pair"
  shows "dom (pairedDevices e') = dom (pairedDevices e)"
proof (cases "pendingPairing e (Connection.DeviceId c) = Some True")
  case True
  with assms have
    "MarkAsPaired
       (e\<lparr>pendingPairing := (pendingPairing e)(Connection.DeviceId c := None)\<rparr>)
       (Connection.DeviceId c) = Inr (e', out)"
    by (simp add: handlePacket_def Let_def)
  from MarkAsPaired_dom_paired [OF this] assms(3) show ?thesis by simp
next
  case False
  show ?thesis
  proof (cases "IsDiscovered e (Connection.DeviceId c)")
    case True
    with False assms show ?thesis by (auto simp: handlePacket_def Let_def)
  next
    case nd: False
    with False assms obtain e1 out1 where
      "addDiscoveredDevice e (RemoteIdentity c)
         (ResolveUDPAddr (RemoteHost (Conn c)) (TcpPort (RemoteIdentity c))) = Inr (e1, out1)"
      "e' = e1"
      by (auto simp: handlePacket_def Let_def split: sum.splits)
    with addDiscoveredDevice_dom_paired show ?thesis by blast
  qed
qed

text \<open>
  C8. For a device id that is not in the paired map, \<open>Unpair\<close> changes nothing: it
  returns (the error "device not paired") with the engine as it was and without any
  effect, so nothing is persisted and no event is emitted. For a device id that is in
  the paired map, marking it as paired again leaves the set of keys of the map as it
  was: the entry is overwritten, not duplicated; and so does a pair packet that
  arrives on a connection of that device.
\<close>

theorem C8_unpair_noop_pair_no_duplicate:
  "(pairedDevices e deviceId = None \<longrightarrow>
      Unpair env e deviceId = Inr (Some DeviceNotPaired, e, []))
   \<and> (pairedDevices e deviceId \<noteq> None \<longrightarrow>
        (\<forall>e' out. MarkAsPaired e deviceId = Inr (e', out) \<longrightarrow>
            dom (pairedDevices e') = dom (pairedDevices e)))
   \<and> (\<forall>c pair e' out.
         conns e conn = Some c \<and> pairedDevices e (Connection.DeviceId c) \<noteq> None \<and>
         Type p = ''kdeconnect.pair'' \<and> Unmarshal_PairBody (Body p) = Inr pair \<and> Pair' pair \<and>
         handlePacket env e conn p = Inr (e', out) \<longrightarrow>
           dom (pairedDevices e') = dom (pairedDevices e))"
proof -
  have unpair: "pairedDevices e deviceId = None \<longrightarrow>
      Unpair env e deviceId = Inr (Some DeviceNotPaired, e, [])"
    by (simp add: Unpair_def)
  have mark: "pairedDevices e deviceId \<noteq> None \<longrightarrow>
      (\<forall>e' out. MarkAsPaired e deviceId = Inr (e', out) \<longrightarrow>
          dom (pairedDevices e') = dom (pairedDevices e))"
    using MarkAsPaired_dom_paired [of e deviceId] by blast
  have again: "\<forall>c pair e' out.
      conns e conn = Some c \<and> pairedDevices e (Connection.DeviceId c) \<noteq> None \<and>
      Type p = ''kdeconnect.pair'' \<and> Unmarshal_PairBody (Body p) = Inr pair \<and> Pair' pair \<and>
      handlePacket env e conn p = Inr (e', out) \<longrightarrow>
        dom (pairedDevices e') = dom (pairedDevices e)"
    using handlePacket_pair_dom_paired [of env e conn p] by blast
  from unpair mark again show ?thesis by blast
qed

theorem C8_unpair_noop_pair_no_duplicate_witness:
  "pairedDevices engine_discovered ''phone'' = None \<and>
   Unpair env_example engine_discovered ''phone''
     = Inr (Some DeviceNotPaired, engine_discovered, []) \<and>
   pairedDevices engine_paired ''phone'' \<noteq> None \<and>
   \<not> isl (MarkAsPaired engine_paired ''phone'') \<and>
   dom (pairedDevices (fst (projr (MarkAsPaired engine_paired ''phone''))))
     = dom (pairedDevices engine_paired) \<and>
   pairedDevices (fst (projr pin_reconnected)) ''phone'' \<noteq> None \<and>
   \<not> isl pin_pair_again \<and>
   dom (pairedDevices (fst (projr pin_pair_again)))
     = dom (pairedDevices (fst (projr pin_reconnected)))"
proof -
  let ?e = "fst (projr pin_reconnected)"
  let ?c = "other_conn\<lparr>OnPacket := Some (CallHandlePacket 1),
                      OnDisconnect := Some (DeleteIfSame ''phone'' 1)\<rparr>"
  have none: "pairedDevices engine_discovered ''phone'' = None"
    by (simp add: example_defs)
  have some: "pairedDevices engine_paired ''phone'' \<noteq> None"
    by (simp add: example_defs)
  have ret: "\<not> isl (MarkAsPaired engine_paired ''phone'')"
    by (simp add: MarkAsPaired_def example_defs Let_def)
  then have eq: "MarkAsPaired engine_paired ''phone''
      = Inr (fst (projr (MarkAsPaired engine_paired ''phone'')),
             snd (projr (MarkAsPaired engine_paired ''phone'')))"
    by (cases "MarkAsPaired engine_paired ''phone''") simp_all
  from C8_unpair_noop_pair_no_duplicate [of engine_discovered "''phone''" env_example] none
  have u: "Unpair env_example engine_discovered ''phone''
      = Inr (Some DeviceNotPaired, engine_discovered, [])"
    by blast
  from C8_unpair_noop_pair_no_duplicate [of engine_paired "''phone''" env_example] some eq
  have m: "dom (pairedDevices (fst (projr (MarkAsPaired engine_paired ''phone''))))
      = dom (pairedDevices engine_paired)"
    by blast
  have conn: "conns ?e 1 = Some ?c"
    by (simp add: pin_reconnected_result)
  have dev: "Connection.DeviceId ?c = ''phone''"
    by (simp add: other_conn_def NewConnection_def)
  have paired: "pairedDevices ?e ''phone'' \<noteq> None"
    by (simp add: pin_reconnected_result example_defs)
  have type: "Type pair_reply = ''kdeconnect.pair''"
    by (simp add: pair_reply_def)
  have flag: "Pair' \<lparr>Pair' = True, Timestamp = 1700000000\<rparr>"
    by simp
  have again: "\<not> isl pin_pair_again"
    by (simp add: pin_pair_again_def handlePacket_def conn type pair_reply_body Let_def
        IsDiscovered_def pin_reconnected_result example_defs other_conn_def NewConnection_def)
  then have run: "handlePacket env_example ?e 1 pair_reply
      = Inr (fst (projr pin_pair_again), snd (projr pin_pair_again))"
    unfolding pin_pair_again_def
    by (cases "handlePacket env_example ?e 1 pair_reply") simp_all
  from C8_unpair_noop_pair_no_duplicate [of ?e "''phone''" env_example 1 pair_reply]
    conn dev paired type pair_reply_body flag run
  have a: "dom (pairedDevices (fst (projr pin_pair_again))) = dom (pairedDevices ?e)"
    by (metis (no_types, lifting))
  from none u some ret m paired again a show ?thesis by blast
qed

section \<open>The discovery listener\<close>

lemma ListenDiscovery_self:
  "\<forall>d \<in> set ds. carries_device_id (fst d) (IdentityBody.DeviceId (Engine.Identity e)) \<Longrightarrow>
     ListenDiscovery discovery_callback e ds = Inr (e, [])"
proof (induction ds)
  case Nil
  show ?case by simp
next
  case (Cons d ds)
  obtain data addr where d: "d = (data, addr)" by (cases d)
  from Cons(2) d have "carries_device_id data (IdentityBody.DeviceId (Engine.Identity e))"
    by simp
  then have "(case data of
                None \<Rightarrow> Inr (e, [])
              | Some v \<Rightarrow>
                  (case Unmarshal_Packet v of
                     Inl err \<Rightarrow> Inr (e, [])
                   | Inr p \<Rightarrow> discovery_callback e p addr)) = Inr (e, [])"
    by (auto simp: carries_device_id_def discovery_callback_def split: option.splits sum.splits)
  with Cons d show ?case by simp
qed

lemma ListenDiscovery_single:
  "ListenDiscovery handler e [(Some v, addr)] =
     (case Unmarshal_Packet v of Inl err \<Rightarrow> Inr (e, []) | Inr p \<Rightarrow> handler e p addr)"
  by (auto split: sum.splits)

lemma addDiscoveredDevice_Some:
  "\<exists>e' out. addDiscoveredDevice e identity (Some a) = Inr (e', out) \<and>
     discoveredDevices e' (IdentityBody.DeviceId identity)
       = Some \<lparr>DiscoveredDevice.Identity = identity, Addr = Some a\<rparr> \<and>
     last out = EmitEvent ''device_discovered''
       (DiscoveredDeviceData \<lparr>DiscoveredDevice.Identity = identity, Addr = Some a\<rparr>)"
  by (auto simp: addDiscoveredDevice_def Let_def split: option.splits)

lemma discovery_callback_never_own:
  assumes "discovery_callback e p addr = Inr (e', out)"
  shows "Engine.Identity e' = Engine.Identity e \<and>
         discoveredDevices e' (IdentityBody.DeviceId (Engine.Identity e))
           = discoveredDevices e (IdentityBody.DeviceId (Engine.Identity e)) \<and>
         \<not> list_ex (discovers (IdentityBody.DeviceId (Engine.Identity e))) out"
  using assms
  by (auto simp: discovery_callback_def addDiscoveredDevice_def Let_def discovers_def
      SaveConfig_def split: if_splits sum.splits option.splits)

lemma discovery_callback_returns:
  "\<exists>e' out. discovery_callback e p addr = Inr (e', out) \<and>
     Engine.Identity e' = Engine.Identity e \<and>
     discoveredDevices e' (IdentityBody.DeviceId (Engine.Identity e))
       = discoveredDevices e (IdentityBody.DeviceId (Engine.Identity e)) \<and>
     \<not> list_ex (discovers (IdentityBody.DeviceId (Engine.Identity e))) out"
proof -
  have "\<exists>e' out. discovery_callback e p addr = Inr (e', out)"
    by (auto simp: discovery_callback_def addDiscoveredDevice_def Let_def
        split: sum.splits option.splits)
  with discovery_callback_never_own show ?thesis by blast
qed

lemma ListenDiscovery_never_own:
  "\<exists>e' out. ListenDiscovery discovery_callback e ds = Inr (e', out) \<and>
     Engine.Identity e' = Engine.Identity e \<and>
     discoveredDevices e' (IdentityBody.DeviceId (Engine.Identity e))
       = discoveredDevices e (IdentityBody.DeviceId (Engine.Identity e)) \<and>
     \<not> list_ex (discovers (IdentityBody.DeviceId (Engine.Identity e))) out"
proof (induction ds arbitrary: e)
  case Nil
  show ?case by simp
next
  case (Cons d ds)
  obtain data addr where d: "d = (data, addr)" by (cases d)
  let ?own = "IdentityBody.DeviceId (Engine.Identity e)"
  let ?first = "case data of
                  None \<Rightarrow> Inr (e, [])
                | Some v \<Rightarrow>
                    (case Unmarshal_Packet v of
                       Inl err \<Rightarrow> Inr (e, [])
                     | Inr p \<Rightarrow> discovery_callback e p addr)"
  have "\<exists>e1 out1. ?first = Inr (e1, out1) \<and> Engine.Identity e1 = Engine.Identity e \<and>
          discoveredDevices e1 ?own = discoveredDevices e ?own \<and>
          \<not> list_ex (discovers ?own) out1"
  proof (cases data)
    case None
    then show ?thesis by simp
  next
    case (Some v)
    show ?thesis
    proof (cases "Unmarshal_Packet v")
      case (Inl err)
      with Some show ?thesis by simp
    next
      case (Inr p)
      with Some discovery_callback_returns [of e p addr] show ?thesis by simp
    qed
  qed
  then obtain e1 out1 where first: "?first = Inr (e1, out1)"
    and id1: "Engine.Identity e1 = Engine.Identity e"
    and own1: "discoveredDevices e1 ?own = discoveredDevices e ?own"
    and out1: "\<not> list_ex (discovers ?own) out1"
    by blast
  from Cons [of e1] id1 obtain e2 out2 where
    rest: "ListenDiscovery discovery_callback e1 ds = Inr (e2, out2)"
    and id2: "Engine.Identity e2 = Engine.Identity e"
    and own2: "discoveredDevices e2 ?own = discoveredDevices e1 ?own"
    and out2: "\<not> list_ex (discovers ?own) out2"
    by auto
  from d first rest have "ListenDiscovery discovery_callback e (d # ds) = Inr (e2, out1 @ out2)"
    by simp
  with id2 own1 own2 out1 out2 show ?case by simp
qed

lemma addDiscoveredDevice_Identity:
  "addDiscoveredDevice e identity addr = Inr (e', out) \<Longrightarrow>
     Engine.Identity e' = Engine.Identity e"
  by (auto simp: addDiscoveredDevice_def Let_def split: option.splits if_splits)

lemma step_then_nothing:
  "(case r of Inl pn \<Rightarrow> Inl pn | Inr (e2, out') \<Rightarrow> Inr (e2, [] @ out')) = (r :: step)"
  by (auto split: sum.splits)

text \<open>
  The listener with the callback of the engine does what the specification says, for
  every list of datagrams: the identities of other devices are added, each with the
  source address of its own datagram, in the order of arrival, and nothing else
  happens.
\<close>

lemma ListenDiscovery_forwards:
  "ListenDiscovery discovery_callback e ds
     = add_all e (forwarded (IdentityBody.DeviceId (Engine.Identity e)) ds)"
proof (induction ds arbitrary: e)
  case Nil
  show ?case by simp
next
  case (Cons d ds)
  obtain data addr where d: "d = (data, addr)" by (cases d)
  let ?own = "IdentityBody.DeviceId (Engine.Identity e)"
  let ?first = "case data of
                  None \<Rightarrow> Inr (e, [])
                | Some v \<Rightarrow>
                    (case Unmarshal_Packet v of
                       Inl err \<Rightarrow> Inr (e, [])
                     | Inr p \<Rightarrow> discovery_callback e p addr)"
  show ?case
  proof (cases "identity_of data")
    case None
    then have "?first = Inr (e, [])"
      by (auto simp: identity_of_def discovery_callback_def
          split: option.splits sum.splits if_splits)
    with None d Cons [of e] show ?thesis by (simp add: step_then_nothing)
  next
    case (Some idBody)
    show ?thesis
    proof (cases "IdentityBody.DeviceId idBody = ?own")
      case True
      with Some have "?first = Inr (e, [])"
        by (auto simp: identity_of_def discovery_callback_def
            split: option.splits sum.splits if_splits)
      with Some True d Cons [of e] show ?thesis by (simp add: step_then_nothing)
    next
      case False
      with Some have first: "?first = addDiscoveredDevice e idBody (Some addr)"
        by (auto simp: identity_of_def discovery_callback_def
            split: option.splits sum.splits if_splits)
      show ?thesis
      proof (cases "addDiscoveredDevice e idBody (Some addr)")
        case (Inl pn)
        with first Some False d show ?thesis by simp
      next
        case (Inr r)
        obtain e1 out where r: "r = (e1, out)" by (cases r)
        from Inr r addDiscoveredDevice_Identity have "Engine.Identity e1 = Engine.Identity e"
          by blast
        with Cons [of e1]
        have "ListenDiscovery discovery_callback e1 ds = add_all e1 (forwarded ?own ds)"
          by simp
        with first Inr r Some False d show ?thesis by simp
      qed
    qed
  qed
qed

text \<open>
  C9. Whatever datagrams arrive, the listener returns, the engine's record of
  discovered devices has no entry made or changed for the device id of the local
  identity, and no \<open>device_discovered\<close> event for that id is emitted. Datagrams whose
  identity body carries the local device id are ignored altogether: after any number
  of them the engine is as it was and no effect has happened. All other identity
  packets are passed on with the source address of their datagram: for every list of
  datagrams, what the listener does is to hand the identities with another device id,
  in the order of arrival and each with the source address of its own datagram, to
  \<open>addDiscoveredDevice\<close> (\<open>forwarded\<close> and \<open>add_all\<close>), and each such call records
  the device under that address and emits \<open>device_discovered\<close>.
\<close>

theorem C9_self_filter:
  "(\<exists>e' out. ListenDiscovery discovery_callback e ds = Inr (e', out) \<and>
      discoveredDevices e' (IdentityBody.DeviceId (Engine.Identity e))
        = discoveredDevices e (IdentityBody.DeviceId (Engine.Identity e)) \<and>
      \<not> list_ex (discovers (IdentityBody.DeviceId (Engine.Identity e))) out)
   \<and> ((\<forall>d \<in> set ds. carries_device_id (fst d) (IdentityBody.DeviceId (Engine.Identity e))) \<longrightarrow>
      ListenDiscovery discovery_callback e ds = Inr (e, []))
   \<and> (Unmarshal_Packet v = Inr p \<and> Type p = ''kdeconnect.identity'' \<and>
       Unmarshal_IdentityBody (Body p) = Inr idBody \<and>
       IdentityBody.DeviceId idBody \<noteq> IdentityBody.DeviceId (Engine.Identity e) \<longrightarrow>
         ListenDiscovery discovery_callback e [(Some v, addr)]
           = addDiscoveredDevice e idBody (Some addr)
         \<and> (\<exists>e' out. addDiscoveredDevice e idBody (Some addr) = Inr (e', out) \<and>
               discoveredDevices e' (IdentityBody.DeviceId idBody)
                 = Some \<lparr>DiscoveredDevice.Identity = idBody, Addr = Some addr\<rparr> \<and>
               last out = EmitEvent ''device_discovered''
                 (DiscoveredDeviceData
                    \<lparr>DiscoveredDevice.Identity = idBody, Addr = Some addr\<rparr>)))
   \<and> ListenDiscovery discovery_callback e ds
       = add_all e (forwarded (IdentityBody.DeviceId (Engine.Identity e)) ds)
   \<and> (\<exists>e' out. addDiscoveredDevice e0 identity (Some a) = Inr (e', out) \<and>
         discoveredDevices e' (IdentityBody.DeviceId identity)
           = Some \<lparr>DiscoveredDevice.Identity = identity, Addr = Some a\<rparr> \<and>
         last out = EmitEvent ''device_discovered''
           (DiscoveredDeviceData \<lparr>DiscoveredDevice.Identity = identity, Addr = Some a\<rparr>))"
proof -
  have never: "\<exists>e' out. ListenDiscovery discovery_callback e ds = Inr (e', out) \<and>
      discoveredDevices e' (IdentityBody.DeviceId (Engine.Identity e))
        = discoveredDevices e (IdentityBody.DeviceId (Engine.Identity e)) \<and>
      \<not> list_ex (discovers (IdentityBody.DeviceId (Engine.Identity e))) out"
    using ListenDiscovery_never_own [of e ds] by blast
  have rest: "((\<forall>d \<in> set ds. carries_device_id (fst d) (IdentityBody.DeviceId (Engine.Identity e))) \<longrightarrow>
      ListenDiscovery discovery_callback e ds = Inr (e, []))
   \<and> (Unmarshal_Packet v = Inr p \<and> Type p = ''kdeconnect.identity'' \<and>
       Unmarshal_IdentityBody (Body p) = Inr idBody \<and>
       IdentityBody.DeviceId idBody \<noteq> IdentityBody.DeviceId (Engine.Identity e) \<longrightarrow>
         ListenDiscovery discovery_callback e [(Some v, addr)]
           = addDiscoveredDevice e idBody (Some addr)
         \<and> (\<exists>e' out. addDiscoveredDevice e idBody (Some addr) = Inr (e', out) \<and>
               discoveredDevices e' (IdentityBody.DeviceId idBody)
                 = Some \<lparr>DiscoveredDevice.Identity = idBody, Addr = Some addr\<rparr> \<and>
               last out = EmitEvent ''device_discovered''
                 (DiscoveredDeviceData
                    \<lparr>DiscoveredDevice.Identity = idBody, Addr = Some addr\<rparr>)))"
    using ListenDiscovery_self [of ds e] addDiscoveredDevice_Some [of e idBody addr]
    by (auto simp: ListenDiscovery_single discovery_callback_def simp del: ListenDiscovery.simps)
  note all = ListenDiscovery_forwards [of e ds]
  note each = addDiscoveredDevice_Some [of e0 identity a]
  from never rest all each show ?thesis by (intro conjI) blast+
qed

theorem C9_self_filter_witness:
  "carries_device_id (Some (identity_datagram ''laptop''))
     (IdentityBody.DeviceId (Engine.Identity engine_idle)) \<and>
   ListenDiscovery discovery_callback engine_idle
     [(Some (identity_datagram ''laptop''), phone_addr),
      (Some (identity_datagram ''laptop''), phone_addr)] = Inr (engine_idle, []) \<and>
   IdentityBody.DeviceId phone_identity \<noteq> IdentityBody.DeviceId (Engine.Identity engine_idle) \<and>
   ListenDiscovery discovery_callback engine_idle [(Some (identity_datagram ''phone''), phone_addr)]
     = addDiscoveredDevice engine_idle phone_identity (Some phone_addr) \<and>
   (\<exists>e' out. addDiscoveredDevice engine_idle phone_identity (Some phone_addr) = Inr (e', out) \<and>
      discoveredDevices e' ''phone''
        = Some \<lparr>DiscoveredDevice.Identity = phone_identity, Addr = Some phone_addr\<rparr>) \<and>
   (\<exists>e' out.
      ListenDiscovery discovery_callback engine_idle
        [(Some (identity_datagram ''phone''), phone_addr),
         (Some (identity_datagram ''laptop''), phone_addr),
         (None, phone_addr),
         (Some (identity_datagram ''tablet''), tablet_addr)] = Inr (e', out) \<and>
      discoveredDevices e' ''phone''
        = Some \<lparr>DiscoveredDevice.Identity = phone_identity, Addr = Some phone_addr\<rparr> \<and>
      discoveredDevices e' ''tablet''
        = Some \<lparr>DiscoveredDevice.Identity = tablet_identity, Addr = Some tablet_addr\<rparr>)"
proof -
  let ?self = "Some (identity_datagram ''laptop'')"
  let ?four = "[(Some (identity_datagram ''phone''), phone_addr),
                (Some (identity_datagram ''laptop''), phone_addr),
                (None, phone_addr),
                (Some (identity_datagram ''tablet''), tablet_addr)]"
  have own: "IdentityBody.DeviceId (Engine.Identity engine_idle) = ''laptop''"
    by (simp add: example_defs)
  have carries: "carries_device_id ?self (IdentityBody.DeviceId (Engine.Identity engine_idle))"
    by (simp add: own carries_device_id_def identity_datagram_packet identity_datagram_body)
  then have all: "\<forall>d \<in> set [(?self, phone_addr), (?self, phone_addr)].
      carries_device_id (fst d) (IdentityBody.DeviceId (Engine.Identity engine_idle))"
    by simp
  let ?p = "\<lparr>Id' = 1700000000000, Type = ''kdeconnect.identity'',
             Body = Some (JObject [(''deviceId'', JString ''phone''),
                                     (''deviceName'', JString ''Pixel''),
                                     (''deviceType'', JString ''phone''),
                                     (''protocolVersion'', JInt 8),
                                     (''tcpPort'', JInt 1716)])\<rparr>"
  have pkt: "Unmarshal_Packet (identity_datagram ''phone'') = Inr ?p"
    by (rule identity_datagram_packet)
  have type: "Type ?p = ''kdeconnect.identity''"
    by simp
  have body: "Unmarshal_IdentityBody (Body ?p) = Inr phone_identity"
    by (simp add: identity_datagram_body phone_identity_def)
  have other: "IdentityBody.DeviceId phone_identity
      \<noteq> IdentityBody.DeviceId (Engine.Identity engine_idle)"
    by (simp add: own phone_identity_def)
  have id: "IdentityBody.DeviceId phone_identity = ''phone''"
    by (simp add: phone_identity_def)
  note C9 = C9_self_filter [where ds = "[(?self, phone_addr), (?self, phone_addr)]"
      and e = engine_idle and v = "identity_datagram ''phone''" and p = ?p
      and idBody = phone_identity and addr = phone_addr]
  from C9 all have first: "ListenDiscovery discovery_callback engine_idle
      [(?self, phone_addr), (?self, phone_addr)] = Inr (engine_idle, [])"
    by blast
  from C9 pkt type body other
  have second: "ListenDiscovery discovery_callback engine_idle
        [(Some (identity_datagram ''phone''), phone_addr)]
      = addDiscoveredDevice engine_idle phone_identity (Some phone_addr)
    \<and> (\<exists>e' out. addDiscoveredDevice engine_idle phone_identity (Some phone_addr) = Inr (e', out) \<and>
          discoveredDevices e' (IdentityBody.DeviceId phone_identity)
            = Some \<lparr>DiscoveredDevice.Identity = phone_identity, Addr = Some phone_addr\<rparr>)"
    by blast
  from C9_self_filter [where ds = ?four and e = engine_idle]
  have "ListenDiscovery discovery_callback engine_idle ?four
      = add_all engine_idle
          (forwarded (IdentityBody.DeviceId (Engine.Identity engine_idle)) ?four)"
    by blast
  then have "ListenDiscovery discovery_callback engine_idle ?four
      = add_all engine_idle [(phone_identity, phone_addr), (tablet_identity, tablet_addr)]"
    by (simp only: own forwarded_example)
  with add_all_example
  have third: "\<exists>e' out. ListenDiscovery discovery_callback engine_idle ?four = Inr (e', out) \<and>
      discoveredDevices e' ''phone''
        = Some \<lparr>DiscoveredDevice.Identity = phone_identity, Addr = Some phone_addr\<rparr> \<and>
      discoveredDevices e' ''tablet''
        = Some \<lparr>DiscoveredDevice.Identity = tablet_identity, Addr = Some tablet_addr\<rparr>"
    by simp
  from carries first other second id third show ?thesis by simp
qed

section \<open>Connections: the disconnect race\<close>

text \<open>
  What \<open>handleNewConnection\<close> installs is the guarded callback, and a connection
  with the guarded callback leaves a replacement in place when it disconnects.
\<close>

lemma handleNewConnection_installs_guard:
  assumes "handleNewConnection e conn = Inr (e', out)"
  shows "\<exists>c. conns e' conn = Some c \<and>
           OnDisconnect c = Some (DeleteIfSame (Connection.DeviceId c) conn) \<and>
           activeConns e' (Connection.DeviceId c) = Some conn"
  using assms
  by (auto simp: handleNewConnection_def addDiscoveredDevice_def Let_def
      split: option.splits sum.splits if_splits)

lemma guarded_disconnect_keeps_replacement:
  assumes "conns e old = Some c" and "OnDisconnect c = Some (DeleteIfSame deviceId old)"
    and "activeConns e deviceId = Some new" and "new \<noteq> old"
  shows "disconnect e old = Inr (e, [])"
  using assms by (simp add: disconnect_def)

text \<open>
  C3 says that the disconnect callback of a registered connection removes the entry
  of \<open>activeConns\<close> only if the entry still holds that connection, so that a newer
  connection that replaced an older one stays registered when the older one
  disconnects. This holds for the connections that \<open>handleNewConnection\<close> registers,
  not for those that \<open>getOrConnect\<close> registers, whose callback deletes the entry
  without looking at it. The engine dials the phone: connection 0 is registered. The
  phone connects to the engine: connection 1 replaces connection 0 in \<open>activeConns\<close>.
  The reader of connection 0 reaches the end of its stream and runs the callback of
  connection 0: the entry of the phone, which held connection 1, is gone.
\<close>

theorem C3_getOrConnect_disconnect_purges_replacement:
  "\<not> isl race_outbound \<and> fst (projr race_outbound) = Inr 0 \<and>
   activeConns (fst (snd (projr race_outbound))) ''phone'' = Some 0 \<and>
   \<not> isl race_inbound \<and> activeConns (fst (projr race_inbound)) ''phone'' = Some 1 \<and>
   StartLoop env_example (fst (projr race_inbound)) 0 [] = race_disconnect \<and>
   \<not> isl race_disconnect \<and> activeConns (fst (projr race_disconnect)) ''phone'' = None"
proof -
  have "StartLoop env_example (fst (projr race_inbound)) 0 [] = race_disconnect"
    by (simp add: race_disconnect_def)
  then show ?thesis
    by (simp add: race_outbound_result race_inbound_result race_disconnect_result)
qed

section \<open>Pairing and the peer's certificate\<close>

text \<open>
  C2, as stated, fails. The phone is paired over connection 0, on which it presented
  \<open>phone_cert\<close>. Then a connection that announces the device id of the phone and
  presents \<open>other_cert\<close> is registered: the engine still answers that the phone is
  paired, and no pair request is surfaced.
\<close>

theorem C2_counterexample:
  "\<not> isl pin_paired \<and> IsPaired (fst (projr pin_paired)) ''phone'' \<and>
   map_option (PeerCertificates \<circ> Conn) (conns (fst (projr pin_paired)) 0) = Some [phone_cert] \<and>
   PeerCertificates (Conn other_conn) = [other_cert] \<and> other_cert \<noteq> phone_cert \<and>
   \<not> isl pin_reconnected \<and>
   activeConns (fst (projr pin_reconnected)) ''phone'' = Some 1 \<and>
   map_option (PeerCertificates \<circ> Conn) (conns (fst (projr pin_reconnected)) 1)
     = Some [other_cert] \<and>
   IsPaired (fst (projr pin_reconnected)) ''phone'' \<and>
   \<not> list_ex (emits ''pair_request'') (snd (projr pin_reconnected))"
  by (simp add: pin_paired_result pin_reconnected_result IsPaired_def example_defs
      outbound_conn_def other_conn_def NewConnection_def other_cert_def phone_cert_def emits_def)

lemma addDiscoveredDevice_no_pair_request:
  "addDiscoveredDevice e identity addr = Inr (e', out) \<Longrightarrow>
     \<not> list_ex (emits ''pair_request'') out"
  by (auto simp: addDiscoveredDevice_def Let_def emits_def SaveConfig_def
      split: option.splits if_splits)

text \<open>
  An outbound connection that succeeds with one chain of peer certificates succeeds
  with any other chain that is not empty.
\<close>

lemma Connect_accepts_every_certificate:
  assumes "Connect net ip port cert identity = Inr c" and "certs \<noteq> []"
  shows "Connect (\<lambda>i p. (net i p)\<lparr>presents := certs\<rparr>) ip port cert identity
           = Inr (c\<lparr>Conn := (Conn c)\<lparr>PeerCertificates := certs\<rparr>\<rparr>)"
  using assms
  by (auto simp: Connect_def Let_def VerifyPeerCertificate_def NewConnection_def
      split: if_splits option.splits sum.splits)

text \<open>
  C2, amended. The engine treats a device as paired if and only if its device id is in
  the paired map. No certificate is recorded at pairing and none is compared when a
  connection is registered: whatever the connection (and so whatever leaf certificate
  it presents), registering it leaves the answer of \<open>IsPaired\<close> for every device id as
  it was and surfaces no pair request. An outbound connection accepts every chain of
  peer certificates that is not empty.
\<close>

theorem C2_paired_iff_in_map:
  "IsPaired e deviceId = (deviceId \<in> dom (pairedDevices e)) \<and>
   (\<forall>e' out. handleNewConnection e conn = Inr (e', out) \<longrightarrow>
      IsPaired e' deviceId = IsPaired e deviceId \<and> \<not> list_ex (emits ''pair_request'') out) \<and>
   (\<forall>c certs. Connect net ip port cert identity = Inr c \<and> certs \<noteq> [] \<longrightarrow>
      Connect (\<lambda>i p. (net i p)\<lparr>presents := certs\<rparr>) ip port cert identity
        = Inr (c\<lparr>Conn := (Conn c)\<lparr>PeerCertificates := certs\<rparr>\<rparr>))"
proof -
  have a: "IsPaired e deviceId = (deviceId \<in> dom (pairedDevices e))" for e
    by (auto simp: IsPaired_def split: option.splits)
  have b: "IsPaired e' deviceId = IsPaired e deviceId \<and> \<not> list_ex (emits ''pair_request'') out"
    if h: "handleNewConnection e conn = Inr (e', out)" for e' out
  proof -
    from h obtain c e2 where c: "conns e conn = Some c"
      and s: "addDiscoveredDevice
                (e\<lparr>activeConns := (activeConns e)(Connection.DeviceId c \<mapsto> conn)\<rparr>)
                (RemoteIdentity c)
                (ResolveUDPAddr (RemoteHost (Conn c)) (TcpPort (RemoteIdentity c)))
              = Inr (e2, out)"
      and e': "pairedDevices e' = pairedDevices e2"
      by (auto simp: handleNewConnection_def Let_def split: option.splits sum.splits)
    from addDiscoveredDevice_dom_paired [OF s] e'
    have "dom (pairedDevices e') = dom (pairedDevices e)"
      by simp
    with a addDiscoveredDevice_no_pair_request [OF s] show ?thesis by simp
  qed
  from a b Connect_accepts_every_certificate [of net ip port cert identity]
  show ?thesis by blast
qed

theorem C2_paired_iff_in_map_witness:
  "''phone'' \<in> dom (pairedDevices (snd (new_Connection (fst (projr pin_paired)) other_conn))) \<and>
   \<not> isl pin_reconnected \<and>
   IsPaired (fst (projr pin_reconnected)) ''phone'' \<and>
   \<not> list_ex (emits ''pair_request'') (snd (projr pin_reconnected)) \<and>
   Connect (network env_example) ''10.0.0.2'' 1716 phone_cert laptop_identity = Inr outbound_conn \<and>
   Connect (\<lambda>i p. (network env_example i p)\<lparr>presents := [other_cert]\<rparr>) ''10.0.0.2'' 1716
       phone_cert laptop_identity
     = Inr other_conn"
proof -
  let ?e = "snd (new_Connection (fst (projr pin_paired)) other_conn)"
  let ?conn = "fst (new_Connection (fst (projr pin_paired)) other_conn)"
  note C2 = C2_paired_iff_in_map [of ?e "''phone''" ?conn "network env_example" "''10.0.0.2''"
      1716 phone_cert laptop_identity]
  have ret: "\<not> isl pin_reconnected"
    by (simp add: pin_reconnected_result)
  then have run: "handleNewConnection ?e ?conn
      = Inr (fst (projr pin_reconnected), snd (projr pin_reconnected))"
    unfolding pin_reconnected_def
    by (cases "handleNewConnection ?e ?conn") simp_all
  have dom: "''phone'' \<in> dom (pairedDevices ?e)"
    by (simp add: pin_paired_result new_Connection_def example_defs)
  from C2 run dom
  have paired: "IsPaired (fst (projr pin_reconnected)) ''phone'' \<and>
      \<not> list_ex (emits ''pair_request'') (snd (projr pin_reconnected))"
    by blast
  have dial: "Connect (network env_example) ''10.0.0.2'' 1716 phone_cert laptop_identity
      = Inr outbound_conn"
    by (simp add: Connect_phone outbound_conn_def)
  have "[other_cert] \<noteq> []" by simp
  with C2 dial
  have "Connect (\<lambda>i p. (network env_example i p)\<lparr>presents := [other_cert]\<rparr>) ''10.0.0.2'' 1716
        phone_cert laptop_identity
      = Inr (outbound_conn\<lparr>Conn := (Conn outbound_conn)\<lparr>PeerCertificates := [other_cert]\<rparr>\<rparr>)"
    by blast
  then have "Connect (\<lambda>i p. (network env_example i p)\<lparr>presents := [other_cert]\<rparr>) ''10.0.0.2''
        1716 phone_cert laptop_identity = Inr other_conn"
    by (simp add: outbound_conn_def other_conn_def NewConnection_def)
  with dom ret paired dial show ?thesis by blast
qed

end
